theory Spec2Isabelle
  imports Complex_Main
begin

section \<open>Point-source panner of ear/core/point\_source.py\<close>

text \<open>
  The region handlers and panners of \<^verbatim>\<open>ear/core/point_source.py\<close>, embedded over
  the real numbers: every \<^verbatim>\<open>float\<close> is a \<^typ>\<open>real\<close> and every operation is exact.
  A Cartesian position (an array of 3 doubles) is a triple, a gain array is a list.
  numpy divides by zero without raising: \<^verbatim>\<open>x / 0.0\<close> is \<^verbatim>\<open>nan\<close> (or \<^verbatim>\<open>inf\<close>) with a
  RuntimeWarning. An array computed through such a division is the value \<open>NaNArr\<close>
  below, which does not record its shape; it is still an array for Python
  (\<^verbatim>\<open>pv is not None\<close> holds). Python's \<^verbatim>\<open>None\<close> is \<open>None\<close>, a raised exception is
  \<open>Inl\<close>.
\<close>

subsection \<open>Arrays and linear algebra\<close>

datatype error =
  LinAlgError | TypeError | IndexError | ValueError | AssertionError | QhullError |
  RecursionError | KeyError

datatype arr = Arr "real list" | NaNArr

type_synonym vec3 = "real \<times> real \<times> real"

type_synonym mat3 = "vec3 \<times> vec3 \<times> vec3"

type_synonym result = "error + arr option"

fun vec3_list :: "vec3 \<Rightarrow> real list" where
  "vec3_list (x, y, z) = [x, y, z]"

fun dot3 :: "vec3 \<Rightarrow> vec3 \<Rightarrow> real" where
  "dot3 (a, b, c) (x, y, z) = a * x + b * y + c * z"

fun sub3 :: "vec3 \<Rightarrow> vec3 \<Rightarrow> vec3" where
  "sub3 (a, b, c) (x, y, z) = (a - x, b - y, c - z)"

fun add3 :: "vec3 \<Rightarrow> vec3 \<Rightarrow> vec3" where
  "add3 (a, b, c) (x, y, z) = (a + x, b + y, c + z)"

fun scale3 :: "real \<Rightarrow> vec3 \<Rightarrow> vec3" where
  "scale3 s (x, y, z) = (s * x, s * y, s * z)"

text \<open>\<^verbatim>\<open>np.cross\<close> of two 3-vectors.\<close>

fun cross :: "vec3 \<Rightarrow> vec3 \<Rightarrow> vec3" where
  "cross (a, b, c) (x, y, z) = (b * z - c * y, c * x - a * z, a * y - b * x)"

text \<open>\<^verbatim>\<open>np.dot(v, m)\<close> for a 3-vector and a 3x3 matrix given by its rows.\<close>

fun vec_mat3 :: "vec3 \<Rightarrow> mat3 \<Rightarrow> vec3" where
  "vec_mat3 (a, b, c) (r0, r1, r2) = add3 (scale3 a r0) (add3 (scale3 b r1) (scale3 c r2))"

text \<open>\<^verbatim>\<open>np.dot(g, positions)\<close> for n gains and an n x 3 matrix.\<close>

fun gains_dot :: "real list \<Rightarrow> vec3 list \<Rightarrow> vec3" where
  "gains_dot (g # gs) (r # rs) = add3 (scale3 g r) (gains_dot gs rs)"
| "gains_dot _ _ = (0, 0, 0)"

fun det3 :: "mat3 \<Rightarrow> real" where
  "det3 ((a, b, c), (d, e, f), (g, h, i)) =
     a * (e * i - f * h) - b * (d * i - f * g) + c * (d * h - e * g)"

text \<open>
  \<^verbatim>\<open>np.linalg.inv\<close> on a 3x3 matrix: the inverse, LinAlgError on a singular matrix.
\<close>

fun inv3 :: "mat3 \<Rightarrow> error + mat3" where
  "inv3 ((a, b, c), (d, e, f), (g, h, i)) =
     (let D = det3 ((a, b, c), (d, e, f), (g, h, i)) in
      if D = 0 then Inl LinAlgError
      else Inr (((e * i - f * h) / D, (c * h - b * i) / D, (b * f - c * e) / D),
                ((f * g - d * i) / D, (a * i - c * g) / D, (c * d - a * f) / D),
                ((d * h - e * g) / D, (b * g - a * h) / D, (a * e - b * d) / D)))"

text \<open>\<^verbatim>\<open>np.linalg.norm\<close> of a 1-d array.\<close>

definition norm_l2 :: "real list \<Rightarrow> real" where
  "norm_l2 v = sqrt (sum_list (map (\<lambda>x. x * x) v))"

text \<open>
  \<^verbatim>\<open>pv /= np.linalg.norm(pv)\<close>: a zero norm gives an array of nan (an empty array
  stays empty).
\<close>

definition normalise :: "real list \<Rightarrow> arr" where
  "normalise v =
     (if v = [] then Arr []
      else if norm_l2 v = 0 then NaNArr
      else Arr (map (\<lambda>x. x / norm_l2 v) v))"

text \<open>\<^verbatim>\<open>np.clip\<close>; a nan stays a nan.\<close>

definition clip :: "real \<Rightarrow> real \<Rightarrow> real \<Rightarrow> real" where
  "clip lo hi x = min hi (max lo x)"

fun clip_arr :: "real \<Rightarrow> real \<Rightarrow> arr \<Rightarrow> arr" where
  "clip_arr lo hi (Arr v) = Arr (map (clip lo hi) v)"
| "clip_arr lo hi NaNArr = NaNArr"

subsection \<open>Triplet\<close>

record triplet =
  t_output_channels :: "nat list"
  t_positions :: mat3
  t_basis :: mat3

text \<open>The attrs constructor with \<^verbatim>\<open>__attrs_post_init__\<close>; the validators check the shapes.\<close>

definition Triplet_init :: "nat list \<Rightarrow> mat3 \<Rightarrow> error + triplet" where
  "Triplet_init output_channels positions =
     (if length output_channels \<noteq> 3 then Inl ValueError
      else case inv3 positions of
             Inl e \<Rightarrow> Inl e
           | Inr basis \<Rightarrow> Inr \<lparr>t_output_channels = output_channels,
                               t_positions = positions, t_basis = basis\<rparr>)"

definition epsilon_triplet :: real where
  "epsilon_triplet = - (1 / 10 ^ 11)"

definition Triplet_handle :: "triplet \<Rightarrow> vec3 \<Rightarrow> arr option" where
  "Triplet_handle t position =
     (let pv = vec3_list (vec_mat3 position (t_basis t)) in
      if pv ! 0 \<ge> epsilon_triplet \<and> pv ! 1 \<ge> epsilon_triplet \<and> pv ! 2 \<ge> epsilon_triplet
      then Some (clip_arr 0 1 (normalise pv))
      else None)"

subsection \<open>RegionHandler.handle\_remap\<close>

text \<open>
  \<^verbatim>\<open>out[self.output_channels] = pv\<close>: the entries are stored one after the other (a
  repeated index keeps the last), an index beyond the array raises IndexError, a
  one-element \<^verbatim>\<open>pv\<close> is broadcast and any other length mismatch raises ValueError.
\<close>

fun assign :: "real list \<Rightarrow> nat list \<Rightarrow> real list \<Rightarrow> real list" where
  "assign out (i # idx) (x # xs) = assign (out[i := x]) idx xs"
| "assign out _ _ = out"

definition remap :: "nat list \<Rightarrow> nat \<Rightarrow> arr \<Rightarrow> error + arr" where
  "remap output_channels nchannels pv =
     (if \<exists>i\<in>set output_channels. i \<ge> nchannels then Inl IndexError
      else case pv of
             NaNArr \<Rightarrow> Inr NaNArr
           | Arr v \<Rightarrow>
               if length v = length output_channels
               then Inr (Arr (assign (replicate nchannels 0) output_channels v))
               else if length v = 1
               then Inr (Arr (assign (replicate nchannels 0) output_channels
                                (replicate (length output_channels) (hd v))))
               else Inl ValueError)"

definition handle_remap :: "nat list \<Rightarrow> result \<Rightarrow> nat \<Rightarrow> result" where
  "handle_remap output_channels pv nchannels =
     (case pv of
        Inl e \<Rightarrow> Inl e
      | Inr None \<Rightarrow> Inr None
      | Inr (Some a) \<Rightarrow>
          (case remap output_channels nchannels a of
             Inl e \<Rightarrow> Inl e
           | Inr out \<Rightarrow> Inr (Some out)))"

subsection \<open>VirtualNgon\<close>

record ngon =
  n_output_channels :: "nat list"
  n_positions :: "vec3 list"
  n_centre_position :: vec3
  n_centre_downmix :: "real list"
  n_regions :: "triplet list"

text \<open>A loop that appends the result of a constructor: the first exception ends it.\<close>

fun sequence :: "(error + 'a) list \<Rightarrow> error + 'a list" where
  "sequence [] = Inr []"
| "sequence (x # xs) =
     (case x of
        Inl e \<Rightarrow> Inl e
      | Inr y \<Rightarrow> (case sequence xs of Inl e \<Rightarrow> Inl e | Inr ys \<Rightarrow> Inr (y # ys)))"

text \<open>
  \<^verbatim>\<open>ngon_vertex_order\<close> is imported from \<^verbatim>\<open>geom\<close> and is a parameter here; an
  index it returns that is out of range raises IndexError.
\<close>

definition VirtualNgon_triplet ::
  "nat list \<Rightarrow> vec3 list \<Rightarrow> vec3 \<Rightarrow> nat \<Rightarrow> nat \<Rightarrow> error + triplet" where
  "VirtualNgon_triplet order positions centre_position n i =
     (let j = (i + 1) mod n in
      if i < length order \<and> j < length order \<and>
         order ! i < length positions \<and> order ! j < length positions
      then Triplet_init [order ! i, order ! j, n]
             (positions ! (order ! i), positions ! (order ! j), centre_position)
      else Inl IndexError)"

definition VirtualNgon_init ::
  "(vec3 list \<Rightarrow> nat list) \<Rightarrow> nat list \<Rightarrow> vec3 list \<Rightarrow> vec3 \<Rightarrow> real list \<Rightarrow> error + ngon" where
  "VirtualNgon_init ngon_vertex_order output_channels positions centre_position centre_downmix =
     (let n = length output_channels in
      if \<not> (n = length positions \<and> length positions = length centre_downmix)
      then Inl AssertionError
      else
        let order = ngon_vertex_order positions in
        case sequence (map (VirtualNgon_triplet order positions centre_position n) [0..<n]) of
          Inl e \<Rightarrow> Inl e
        | Inr regions \<Rightarrow>
            Inr \<lparr>n_output_channels = output_channels, n_positions = positions,
                 n_centre_position = centre_position, n_centre_downmix = centre_downmix,
                 n_regions = regions\<rparr>)"

text \<open>
  The body of the loop of \<^verbatim>\<open>VirtualNgon.handle\<close> once a region has answered:
  \<^verbatim>\<open>pv[:-1] += pv[-1] * self.centre_downmix; pv = pv[:-1]; pv /= np.linalg.norm(pv)\<close>.
\<close>

fun centre_fold :: "real list \<Rightarrow> arr \<Rightarrow> arr" where
  "centre_fold centre_downmix (Arr pv) =
     normalise (map2 (+) (butlast pv) (map (\<lambda>d. last pv * d) centre_downmix))"
| "centre_fold centre_downmix NaNArr = NaNArr"

fun VirtualNgon_loop :: "triplet list \<Rightarrow> real list \<Rightarrow> vec3 \<Rightarrow> result" where
  "VirtualNgon_loop [] centre_downmix position = Inr None"
| "VirtualNgon_loop (region # regions) centre_downmix position =
     (case handle_remap (t_output_channels region) (Inr (Triplet_handle region position))
             (length centre_downmix + 1) of
        Inl e \<Rightarrow> Inl e
      | Inr None \<Rightarrow> VirtualNgon_loop regions centre_downmix position
      | Inr (Some pv) \<Rightarrow> Inr (Some (centre_fold centre_downmix pv)))"

definition VirtualNgon_handle :: "ngon \<Rightarrow> vec3 \<Rightarrow> result" where
  "VirtualNgon_handle g position = VirtualNgon_loop (n_regions g) (n_centre_downmix g) position"

subsection \<open>QuadRegion\<close>

type_synonym poly3 = "vec3 \<times> vec3 \<times> vec3"

record quad =
  q_output_channels :: "nat list"
  q_positions :: "vec3 list"
  q_order :: "nat list"
  q_pan_x :: poly3
  q_pan_y :: poly3

text \<open>
  \<^verbatim>\<open>pan_axis\<close> returns a closure over \<^verbatim>\<open>poly\<close>; the closure is \<open>pan_axis_handle\<close>
  applied to the polynomial. \<^verbatim>\<open>np.roots\<close> is a parameter: it takes the coefficients,
  highest power first, and returns the roots in numpy's order.
\<close>

definition pan_axis :: "vec3 list \<Rightarrow> error + poly3" where
  "pan_axis spk_positions =
     (case spk_positions of
        [a, b, c, d] \<Rightarrow>
          Inr (cross (sub3 b a) (sub3 c d),
               add3 (cross a (sub3 c d)) (cross (sub3 b a) d),
               cross a d)
      | _ \<Rightarrow> Inl ValueError)"

definition epsillon :: real where
  "epsillon = 1 / 10 ^ 10"

definition root_ok :: "complex \<Rightarrow> bool" where
  "root_ok r \<longleftrightarrow> \<bar>Im r\<bar> < epsillon \<and> - epsillon < Re r \<and> Re r < 1 + epsillon"

fun first_root :: "complex list \<Rightarrow> real option" where
  "first_root [] = None"
| "first_root (r # roots) =
     (if root_ok r then Some (clip 0 1 (Re r)) else first_root roots)"

fun poly_dot :: "poly3 \<Rightarrow> vec3 \<Rightarrow> real list" where
  "poly_dot (c2, c1, c0) position = [dot3 c2 position, dot3 c1 position, dot3 c0 position]"

definition pan_axis_handle :: "(real list \<Rightarrow> complex list) \<Rightarrow> poly3 \<Rightarrow> vec3 \<Rightarrow> real option" where
  "pan_axis_handle np_roots poly position = first_root (np_roots (poly_dot poly position))"

text \<open>\<^verbatim>\<open>positions[order]\<close>: the rows at the given indices, IndexError out of range.\<close>

definition take_rows :: "'a list \<Rightarrow> nat list \<Rightarrow> error + 'a list" where
  "take_rows xs idx =
     (if \<exists>i\<in>set idx. i \<ge> length xs then Inl IndexError else Inr (map (\<lambda>i. xs ! i) idx))"

definition QuadRegion_init ::
  "(vec3 list \<Rightarrow> nat list) \<Rightarrow> nat list \<Rightarrow> vec3 list \<Rightarrow> error + quad" where
  "QuadRegion_init ngon_vertex_order output_channels positions =
     (if length output_channels \<noteq> 4 \<or> length positions \<noteq> 4 then Inl ValueError
      else
        let order = ngon_vertex_order positions in
        case take_rows positions order of
          Inl e \<Rightarrow> Inl e
        | Inr ordered \<Rightarrow>
            (case pan_axis ordered of
               Inl e \<Rightarrow> Inl e
             | Inr pan_x \<Rightarrow>
                 (case pan_axis [ordered ! 1, ordered ! 2, ordered ! 3, ordered ! 0] of
                    Inl e \<Rightarrow> Inl e
                  | Inr pan_y \<Rightarrow>
                      Inr \<lparr>q_output_channels = output_channels, q_positions = positions,
                           q_order = order, q_pan_x = pan_x, q_pan_y = pan_y\<rparr>)))"

definition QuadRegion_handle :: "(real list \<Rightarrow> complex list) \<Rightarrow> quad \<Rightarrow> vec3 \<Rightarrow> result" where
  "QuadRegion_handle np_roots q position =
     (case (pan_axis_handle np_roots (q_pan_x q) position,
            pan_axis_handle np_roots (q_pan_y q) position) of
        (Some x, Some y) \<Rightarrow>
          (case remap (q_order q) 4
                  (Arr [(1 - x) * (1 - y), x * (1 - y), x * y, (1 - x) * y]) of
             Inl e \<Rightarrow> Inl e
           | Inr NaNArr \<Rightarrow> Inr (Some NaNArr)
           | Inr (Arr pvs) \<Rightarrow>
               if dot3 (gains_dot pvs (q_positions q)) position \<le> 0 then Inr None
               else Inr (Some (normalise pvs)))
      | _ \<Rightarrow> Inr None)"

subsection \<open>Regions and panners\<close>

text \<open>
  A RegionHandler is one of the four classes. A StereoPanDownmix holds its inner
  panner \<^verbatim>\<open>psp\<close>; the two panner classes are PointSourcePanner (regions and
  \<^verbatim>\<open>num_channels\<close>) and PointSourcePannerDownmix (inner panner and downmix matrix,
  given by its rows).
\<close>

datatype region =
    Triplet triplet
  | VirtualNgon ngon
  | QuadRegion quad
  | StereoPanDownmix nat nat panner
and panner =
    PointSourcePanner "region list" nat
  | PointSourcePannerDownmix panner "real list list"

fun output_channels :: "region \<Rightarrow> nat list" where
  "output_channels (Triplet t) = t_output_channels t"
| "output_channels (VirtualNgon g) = n_output_channels g"
| "output_channels (QuadRegion q) = q_output_channels q"
| "output_channels (StereoPanDownmix left_channel right_channel psp) =
     [left_channel, right_channel]"

text \<open>\<^verbatim>\<open>np.dot(downmix, pv)\<close>: a matrix times a vector, ValueError when the shapes differ.\<close>

definition mat_vec :: "real list list \<Rightarrow> real list \<Rightarrow> error + real list" where
  "mat_vec m v =
     (if \<exists>row\<in>set m. length row \<noteq> length v then Inl ValueError
      else Inr (map (\<lambda>row. sum_list (map2 (*) row v)) m))"

definition stereo_downmix :: "real list list" where
  "stereo_downmix =
     [[1, 0, sqrt 3 / 3, sqrt (1 / 2), 0],
      [0, 1, sqrt 3 / 3, 0, sqrt (1 / 2)]]"

text \<open>
  \<^verbatim>\<open>StereoPanDownmix.handle\<close> after \<^verbatim>\<open>pv = self.psp.handle(position)\<close>. There is no
  test for \<^verbatim>\<open>None\<close>: \<^verbatim>\<open>np.dot(downmix, None)\<close> raises TypeError. The exponent
  divides by \<^verbatim>\<open>front + back\<close>.
\<close>

fun StereoPanDownmix_mix :: "arr option \<Rightarrow> result" where
  "StereoPanDownmix_mix None = Inl TypeError"
| "StereoPanDownmix_mix (Some NaNArr) = Inr (Some NaNArr)"
| "StereoPanDownmix_mix (Some (Arr pv)) =
     (case mat_vec stereo_downmix pv of
        Inl e \<Rightarrow> Inl e
      | Inr pv_dmix \<Rightarrow>
          (let front = max (pv ! 0) (max (pv ! 1) (pv ! 2));
               back = max (pv ! 3) (pv ! 4)
           in case normalise pv_dmix of
                NaNArr \<Rightarrow> Inr (Some NaNArr)
              | Arr g \<Rightarrow>
                  if front + back = 0 then Inr (Some NaNArr)
                  else Inr (Some (Arr (map (\<lambda>x. x * (1 / 2) powr (0.5 * back / (front + back))) g)))))"

text \<open>\<^verbatim>\<open>PointSourcePannerDownmix.handle\<close> after the inner panner has answered.\<close>

fun downmix_apply :: "real list list \<Rightarrow> arr option \<Rightarrow> result" where
  "downmix_apply downmix None = Inr None"
| "downmix_apply downmix (Some NaNArr) = Inr (Some NaNArr)"
| "downmix_apply downmix (Some (Arr pv)) =
     (case mat_vec downmix pv of
        Inl e \<Rightarrow> Inl e
      | Inr v \<Rightarrow> Inr (Some (normalise v)))"

text \<open>
  \<open>region_handle\<close> is \<^verbatim>\<open>handle\<close> of a region, \<open>panner_handle\<close> is \<^verbatim>\<open>handle\<close> of a
  panner; the loop of \<^verbatim>\<open>PointSourcePanner.handle\<close> is the recursion on the regions.
\<close>

fun region_handle :: "(real list \<Rightarrow> complex list) \<Rightarrow> region \<Rightarrow> vec3 \<Rightarrow> result"
and panner_handle :: "(real list \<Rightarrow> complex list) \<Rightarrow> panner \<Rightarrow> vec3 \<Rightarrow> result" where
  "region_handle np_roots (Triplet t) position = Inr (Triplet_handle t position)"
| "region_handle np_roots (VirtualNgon g) position = VirtualNgon_handle g position"
| "region_handle np_roots (QuadRegion q) position = QuadRegion_handle np_roots q position"
| "region_handle np_roots (StereoPanDownmix left_channel right_channel psp) position =
     (case panner_handle np_roots psp position of
        Inl e \<Rightarrow> Inl e
      | Inr pv \<Rightarrow> StereoPanDownmix_mix pv)"
| "panner_handle np_roots (PointSourcePanner [] num_channels) position = Inr None"
| "panner_handle np_roots (PointSourcePanner (region # regions) num_channels) position =
     (case handle_remap (output_channels region) (region_handle np_roots region position)
             num_channels of
        Inl e \<Rightarrow> Inl e
      | Inr None \<Rightarrow> panner_handle np_roots (PointSourcePanner regions num_channels) position
      | Inr (Some pv) \<Rightarrow> Inr (Some pv))"
| "panner_handle np_roots (PointSourcePannerDownmix psp downmix) position =
     (case panner_handle np_roots psp position of
        Inl e \<Rightarrow> Inl e
      | Inr pv \<Rightarrow> downmix_apply downmix pv)"

text \<open>
  The constructor of PointSourcePanner: \<^verbatim>\<open>num_channels\<close> defaults to one more than the
  largest output channel (\<^verbatim>\<open>max\<close> of an empty sequence raises ValueError), and a given
  \<^verbatim>\<open>num_channels\<close> is asserted to be at least that.
\<close>

definition num_required_channels :: "region list \<Rightarrow> error + nat" where
  "num_required_channels regions =
     (if regions = [] \<or> (\<exists>r\<in>set regions. output_channels r = []) then Inl ValueError
      else Inr (Max (set (map (\<lambda>r. Max (set (output_channels r))) regions)) + 1))"

definition PointSourcePanner_init :: "region list \<Rightarrow> nat option \<Rightarrow> error + panner" where
  "PointSourcePanner_init regions num_channels =
     (case num_required_channels regions of
        Inl e \<Rightarrow> Inl e
      | Inr required \<Rightarrow>
          (case num_channels of
             None \<Rightarrow> Inr (PointSourcePanner regions required)
           | Some n \<Rightarrow>
               if n \<ge> required then Inr (PointSourcePanner regions n)
               else Inl AssertionError))"

subsection \<open>The order of clamping and normalising, as a specification\<close>


subsection \<open>Example values\<close>

text \<open>The triplet of the three unit vectors, as its constructor builds it.\<close>

definition T_unit :: triplet where
  "T_unit = \<lparr>t_output_channels = [0, 1, 2],
             t_positions = ((1, 0, 0), (0, 1, 0), (0, 0, 1)),
             t_basis = ((1, 0, 0), (0, 1, 0), (0, 0, 1))\<rparr>"

text \<open>The triplet of the three negated unit vectors, on channels 3 to 5.\<close>

definition T_neg :: triplet where
  "T_neg = \<lparr>t_output_channels = [3, 4, 5],
            t_positions = ((-1, 0, 0), (0, -1, 0), (0, 0, -1)),
            t_basis = ((-1, 0, 0), (0, -1, 0), (0, 0, -1))\<rparr>"

text \<open>
  The output channels of a sub-triplet of a VirtualNgon over \<open>n\<close> speakers: two different
  real slots and the virtual slot \<open>n\<close>.
\<close>

definition slot_ok :: "nat \<Rightarrow> triplet \<Rightarrow> bool" where
  "slot_ok n t \<longleftrightarrow> (\<exists>x y. t_output_channels t = [x, y, n] \<and> x < n \<and> y < n \<and> x \<noteq> y)"

text \<open>
  The construction in the words of the specification: the sub-triplet of the \<open>i\<close>-th
  consecutive pair of the cyclically ordered speakers has the output slots
  \<open>[i, i+1 mod n, n]\<close>. \<open>VirtualNgon_triplet\<close>, from the source, has
  \<open>[order[i], order[i+1 mod n], n]\<close>.
\<close>

definition spec_sub_triplet ::
  "nat list \<Rightarrow> vec3 list \<Rightarrow> vec3 \<Rightarrow> nat \<Rightarrow> nat \<Rightarrow> error + triplet" where
  "spec_sub_triplet order positions centre_position n i =
     (let j = (i + 1) mod n in
      if i < length order \<and> j < length order \<and>
         order ! i < length positions \<and> order ! j < length positions
      then Triplet_init [i, j, n]
             (positions ! (order ! i), positions ! (order ! j), centre_position)
      else Inl IndexError)"

definition VirtualNgon_init_spec ::
  "(vec3 list \<Rightarrow> nat list) \<Rightarrow> nat list \<Rightarrow> vec3 list \<Rightarrow> vec3 \<Rightarrow> real list \<Rightarrow> error + ngon" where
  "VirtualNgon_init_spec ngon_vertex_order channels positions centre_position centre_downmix =
     (let n = length channels in
      if \<not> (n = length positions \<and> length positions = length centre_downmix)
      then Inl AssertionError
      else
        let order = ngon_vertex_order positions in
        case sequence (map (spec_sub_triplet order positions centre_position n) [0..<n]) of
          Inl e \<Rightarrow> Inl e
        | Inr regions \<Rightarrow>
            Inr \<lparr>n_output_channels = channels, n_positions = positions,
                 n_centre_position = centre_position, n_centre_downmix = centre_downmix,
                 n_regions = regions\<rparr>)"

text \<open>
  A ring of three speakers around the centre \<open>(0, 0, 1)\<close>, with the vertex order
  \<open>[2, 0, 1]\<close> (the speakers sorted by their angle in the plane, from \<open>-135\<close> degrees):
  the VirtualNgon that the constructor builds, and the one of the specification.
\<close>

definition order_201 :: "vec3 list \<Rightarrow> nat list" where
  "order_201 positions = [2, 0, 1]"

definition ring3 :: "vec3 list" where
  "ring3 = [(1, 0, 0), (0, 1, 0), (-1, -1, 0)]"

definition G_rot :: ngon where
  "G_rot = \<lparr>n_output_channels = [0, 1, 2], n_positions = ring3,
            n_centre_position = (0, 0, 1), n_centre_downmix = [1 / 3, 2 / 3, 2 / 3],
            n_regions =
              [\<lparr>t_output_channels = [2, 0, 3],
                t_positions = ((-1, -1, 0), (1, 0, 0), (0, 0, 1)),
                t_basis = ((0, 1, 0), (-1, -1, 0), (0, 0, 1))\<rparr>,
               \<lparr>t_output_channels = [0, 1, 3],
                t_positions = ((1, 0, 0), (0, 1, 0), (0, 0, 1)),
                t_basis = ((1, 0, 0), (0, 1, 0), (0, 0, 1))\<rparr>,
               \<lparr>t_output_channels = [1, 2, 3],
                t_positions = ((0, 1, 0), (-1, -1, 0), (0, 0, 1)),
                t_basis = ((-1, -1, 0), (1, 0, 0), (0, 0, 1))\<rparr>]\<rparr>"

definition G_rot_spec :: ngon where
  "G_rot_spec = \<lparr>n_output_channels = [0, 1, 2], n_positions = ring3,
            n_centre_position = (0, 0, 1), n_centre_downmix = [1 / 3, 2 / 3, 2 / 3],
            n_regions =
              [\<lparr>t_output_channels = [0, 1, 3],
                t_positions = ((-1, -1, 0), (1, 0, 0), (0, 0, 1)),
                t_basis = ((0, 1, 0), (-1, -1, 0), (0, 0, 1))\<rparr>,
               \<lparr>t_output_channels = [1, 2, 3],
                t_positions = ((1, 0, 0), (0, 1, 0), (0, 0, 1)),
                t_basis = ((1, 0, 0), (0, 1, 0), (0, 0, 1))\<rparr>,
               \<lparr>t_output_channels = [2, 0, 3],
                t_positions = ((0, 1, 0), (-1, -1, 0), (0, 0, 1)),
                t_basis = ((-1, -1, 0), (1, 0, 0), (0, 0, 1))\<rparr>]\<rparr>"

text \<open>
  A square of four speakers at height 1 with the vertex order \<open>[0, 1, 2, 3]\<close>, and the
  QuadRegion that the constructor builds from it. Opposite edges are parallel, so the
  leading coefficient of both polynomials is zero.
\<close>

definition order_id4 :: "vec3 list \<Rightarrow> nat list" where
  "order_id4 positions = [0, 1, 2, 3]"

definition square4 :: "vec3 list" where
  "square4 = [(1, 1, 1), (-1, 1, 1), (-1, -1, 1), (1, -1, 1)]"

text \<open>
  An instance of the parameter \<^verbatim>\<open>np.roots\<close> for polynomials with a zero leading
  coefficient (which \<^verbatim>\<open>np.roots\<close> strips): the root of the remaining linear polynomial.
\<close>

definition np_roots_linear :: "real list \<Rightarrow> complex list" where
  "np_roots_linear cs =
     (case cs of
        [c2, c1, c0] \<Rightarrow> if c2 = 0 \<and> c1 \<noteq> 0 then [Complex (- c0 / c1) 0] else []
      | _ \<Rightarrow> [])"

definition Q_square :: quad where
  "Q_square = \<lparr>q_output_channels = [0, 1, 2, 3], q_positions = square4,
               q_order = [0, 1, 2, 3],
               q_pan_x = ((0, 0, 0), (0, 0, 4), (2, 0, -2)),
               q_pan_y = ((0, 0, 0), (0, 0, 4), (0, 2, -2))\<rparr>"

subsection \<open>Layouts and extra\_pos\_vertical\_nominal\<close>

text \<open>
  Modelled from the spec: the classes PolarPosition (\<^verbatim>\<open>geom\<close>), Channel and Layout
  (\<^verbatim>\<open>layout\<close>) are imported and not part of the source file. A channel has a name, a
  real and a nominal polar position and the flag \<^verbatim>\<open>is_lfe\<close> (false unless given); a
  layout has a name and an ordered list of channels; \<^verbatim>\<open>channel_names\<close> are the names in
  that order.
\<close>

record PolarPosition =
  azimuth :: real
  elevation :: real
  distance :: real

record Channel =
  name :: string
  polar_position :: PolarPosition
  polar_nominal_position :: PolarPosition
  is_lfe :: bool

record Layout =
  layout_name :: string
  channels :: "Channel list"

definition channel_names :: "Layout \<Rightarrow> string list" where
  "channel_names layout = map name (channels layout)"

text \<open>A row of \<^verbatim>\<open>np.identity(n)\<close>, which is also \<^verbatim>\<open>downmix_row\<close> for a mid channel.\<close>

definition unit_row :: "nat \<Rightarrow> nat \<Rightarrow> real list" where
  "unit_row n i = (replicate n 0)[i := 1]"

definition identity :: "nat \<Rightarrow> real list list" where
  "identity n = map (unit_row n) [0..<n]"

text \<open>\<^verbatim>\<open>np.array(downmix).T\<close> for rows of length \<open>n\<close>.\<close>

definition mat_T :: "nat \<Rightarrow> real list list \<Rightarrow> real list list" where
  "mat_T n rows = map (\<lambda>i. map (\<lambda>row. row ! i) rows) [0..<n]"

definition nominal_az :: "Channel \<Rightarrow> real" where
  "nominal_az c = azimuth (polar_nominal_position c)"

definition nominal_el :: "Channel \<Rightarrow> real" where
  "nominal_el c = elevation (polar_nominal_position c)"

definition real_az :: "Channel \<Rightarrow> real" where
  "real_az c = azimuth (polar_position c)"

definition real_el :: "Channel \<Rightarrow> real" where
  "real_el c = elevation (polar_position c)"

definition mid :: "Channel \<Rightarrow> bool" where
  "mid c \<longleftrightarrow> -10 \<le> nominal_el c \<and> nominal_el c \<le> 10"

definition extra_channel :: "Channel \<Rightarrow> real \<Rightarrow> real \<Rightarrow> Channel" where
  "extra_channel mid_pos layer_real_el layer_nominal_el =
     \<lparr>name = ''extra'',
      polar_position =
        \<lparr>azimuth = real_az mid_pos, elevation = layer_real_el, distance = 1\<rparr>,
      polar_nominal_position =
        \<lparr>azimuth = nominal_az mid_pos, elevation = layer_nominal_el, distance = 1\<rparr>,
      is_lfe = False\<rparr>"

text \<open>
  The inner loop over \<^verbatim>\<open>zip(np.where(mid)[0], pos[mid])\<close>, with the two lists that it
  appends to as the state.
\<close>

fun mid_loop ::
  "real \<Rightarrow> real \<Rightarrow> real \<Rightarrow> nat \<Rightarrow> (nat \<times> Channel) list \<Rightarrow>
   Channel list \<times> real list list \<Rightarrow> Channel list \<times> real list list" where
  "mid_loop az_limit layer_real_el layer_nominal_el n [] state = state"
| "mid_loop az_limit layer_real_el layer_nominal_el n ((mid_channel, mid_pos) # rest)
     (extra_channels, downmix) =
     (if \<bar>nominal_az mid_pos\<bar> \<ge> az_limit - 1 / 10 ^ 5
      then mid_loop az_limit layer_real_el layer_nominal_el n rest
             (extra_channels @ [extra_channel mid_pos layer_real_el layer_nominal_el],
              downmix @ [unit_row n mid_channel])
      else mid_loop az_limit layer_real_el layer_nominal_el n rest (extra_channels, downmix))"

text \<open>The body of the loop over the layers \<^verbatim>\<open>(layer_nominal_el, layer_lb, layer_ub)\<close>.\<close>

definition layer_step ::
  "Channel list \<Rightarrow> real \<times> real \<times> real \<Rightarrow>
   Channel list \<times> real list list \<Rightarrow> Channel list \<times> real list list" where
  "layer_step chs lay state =
     (case lay of (layer_nominal_el, layer_lb, layer_ub) \<Rightarrow>
        let layer = filter (\<lambda>c. layer_lb \<le> nominal_el c \<and> nominal_el c \<le> layer_ub) chs;
            az_limit = (if layer \<noteq> [] then Max (set (map (\<lambda>c. \<bar>nominal_az c\<bar>) layer)) + 40
                        else 0);
            layer_real_el = (if layer \<noteq> []
                             then sum_list (map real_el layer) / real (length layer)
                             else layer_nominal_el)
        in mid_loop az_limit layer_real_el layer_nominal_el (length chs)
             (filter (\<lambda>(i, c). mid c) (zip [0..<length chs] chs)) state)"

definition layers :: "(real \<times> real \<times> real) list" where
  "layers = [(-30, -70, -10), (30, 10, 70)]"

definition extra_pos_vertical_nominal :: "Layout \<Rightarrow> Channel list \<times> real list list" where
  "extra_pos_vertical_nominal layout =
     (let chs = channels layout;
          (extra_channels, downmix) = fold (layer_step chs) layers ([], identity (length chs))
      in (extra_channels, mat_T (length chs) downmix))"

text \<open>
  The indices of the mid-layer channels whose absolute nominal azimuth reaches a limit,
  in increasing order.
\<close>

definition picked :: "Channel list \<Rightarrow> real \<Rightarrow> nat list" where
  "picked chs azl = filter (\<lambda>i. mid (chs ! i) \<and> \<bar>nominal_az (chs ! i)\<bar> \<ge> azl - 1 / 10 ^ 5) [0..<length chs]"

text \<open>A layout of two mid-layer channels and one channel on the upper layer.\<close>

definition L3 :: Layout where
  "L3 = \<lparr>layout_name = ''example'',
         channels =
           [\<lparr>name = ''M+030'',
             polar_position = \<lparr>azimuth = 30, elevation = 0, distance = 1\<rparr>,
             polar_nominal_position = \<lparr>azimuth = 30, elevation = 0, distance = 1\<rparr>,
             is_lfe = False\<rparr>,
            \<lparr>name = ''M+110'',
             polar_position = \<lparr>azimuth = 110, elevation = 0, distance = 1\<rparr>,
             polar_nominal_position = \<lparr>azimuth = 110, elevation = 0, distance = 1\<rparr>,
             is_lfe = False\<rparr>,
            \<lparr>name = ''U+045'',
             polar_position = \<lparr>azimuth = 45, elevation = 30, distance = 1\<rparr>,
             polar_nominal_position = \<lparr>azimuth = 45, elevation = 30, distance = 1\<rparr>,
             is_lfe = False\<rparr>]\<rparr>"

subsection \<open>The configuration\<close>

text \<open>
  What \<^verbatim>\<open>configure\<close> calls and the source file does not define is a parameter:
  \<^verbatim>\<open>np.roots\<close>, \<^verbatim>\<open>ngon_vertex_order\<close> (\<^verbatim>\<open>geom\<close>), \<^verbatim>\<open>scipy.spatial.ConvexHull\<close> (the
  simplices with their plane equations, or QhullError), the order in which
  \<^verbatim>\<open>np.fromiter\<close> reads a Python set, the properties \<^verbatim>\<open>nominal_positions\<close> and
  \<^verbatim>\<open>norm_positions\<close> of a Layout, and \<^verbatim>\<open>bs2051.get_layout\<close>.
\<close>

record externals =
  x_np_roots :: "real list \<Rightarrow> complex list"
  x_ngon_vertex_order :: "vec3 list \<Rightarrow> nat list"
  x_ConvexHull :: "vec3 list \<Rightarrow> error + (nat list \<times> real list) list"
  x_fromiter :: "nat set \<Rightarrow> nat list"
  x_nominal_positions :: "Layout \<Rightarrow> vec3 list"
  x_norm_positions :: "Layout \<Rightarrow> vec3 list"
  x_get_layout :: "string \<Rightarrow> error + Layout"

text \<open>Modelled from the spec: \<^verbatim>\<open>without_lfe\<close>, the layout without its LFE channels.\<close>

definition without_lfe :: "Layout \<Rightarrow> Layout" where
  "without_lfe layout = layout\<lparr>channels := filter (\<lambda>c. \<not> is_lfe c) (channels layout)\<rparr>"

text \<open>
  The inner loop of \<^verbatim>\<open>_convex_hull_facets\<close> with its \<^verbatim>\<open>else\<close> branch: the simplex joins
  the first facet whose equation is closer than \<open>1e-5\<close>, or becomes a new facet at the end.
\<close>

fun merge_simplex ::
  "(real list \<times> nat set) list \<Rightarrow> nat list \<Rightarrow> real list \<Rightarrow> (real list \<times> nat set) list" where
  "merge_simplex [] tri equation = [(equation, set tri)]"
| "merge_simplex ((facet_eqn, facet_verts) # facets) tri equation =
     (if norm_l2 (map2 (-) facet_eqn equation) < 1 / 10 ^ 5
      then (facet_eqn, facet_verts \<union> set tri) # facets
      else (facet_eqn, facet_verts) # merge_simplex facets tri equation)"

definition convex_hull_facets :: "(nat list \<times> real list) list \<Rightarrow> nat set list" where
  "convex_hull_facets simplices =
     map snd (fold (\<lambda>(tri, equation) facets. merge_simplex facets tri equation) simplices [])"

text \<open>\<^verbatim>\<open>set.union(*[...])\<close> of no sets raises TypeError.\<close>

definition adjacent_verts :: "nat set list \<Rightarrow> nat \<Rightarrow> error + nat set" where
  "adjacent_verts facets vert =
     (let sets = map (\<lambda>facet_verts. facet_verts - {vert})
                   (filter (\<lambda>facet_verts. vert \<in> facet_verts) facets)
      in if sets = [] then Inl TypeError else Inr (\<Union>(set sets) - {vert}))"

definition virtual_positions :: "Layout \<Rightarrow> vec3 list" where
  "virtual_positions layout =
     (0, 0, -1) #
     (if \<not> (''T+000'' \<in> set (channel_names layout) \<or> ''UH+180'' \<in> set (channel_names layout))
      then [(0, 0, 1)] else [])"

text \<open>The body of the loop over \<^verbatim>\<open>virtual_verts\<close>.\<close>

definition virtual_ngon ::
  "externals \<Rightarrow> nat set list \<Rightarrow> vec3 list \<Rightarrow> nat list \<Rightarrow> nat \<Rightarrow> error + region" where
  "virtual_ngon ext facets positions_real virtual_verts virtual_vert =
     (case adjacent_verts facets virtual_vert of
        Inl e \<Rightarrow> Inl e
      | Inr adj \<Rightarrow>
          let real_verts = x_fromiter ext adj in
          if set real_verts \<inter> set virtual_verts \<noteq> {} then Inl AssertionError
          else
            (case take_rows positions_real real_verts of
               Inl e \<Rightarrow> Inl e
             | Inr positions \<Rightarrow>
                 if virtual_vert \<ge> length positions_real then Inl IndexError
                 else
                   (case VirtualNgon_init (x_ngon_vertex_order ext) real_verts positions
                           (positions_real ! virtual_vert)
                           (replicate (length real_verts)
                              (1 / sqrt (real (length real_verts)))) of
                      Inl e \<Rightarrow> Inl e
                    | Inr g \<Rightarrow> Inr (VirtualNgon g))))"

text \<open>
  The body of the loop over the facets: \<open>None\<close> for a facet with a virtual vertex
  (\<^verbatim>\<open>continue\<close>), else a Triplet or a QuadRegion.
\<close>

definition facet_region ::
  "externals \<Rightarrow> vec3 list \<Rightarrow> nat list \<Rightarrow> nat set \<Rightarrow> error + region option" where
  "facet_region ext positions_real virtual_verts facet_verts =
     (if facet_verts \<inter> set virtual_verts \<noteq> {} then Inr None
      else
        let verts = x_fromiter ext facet_verts in
        case take_rows positions_real verts of
          Inl e \<Rightarrow> Inl e
        | Inr positions \<Rightarrow>
            if length verts = 3 then
              (case Triplet_init verts (positions ! 0, positions ! 1, positions ! 2) of
                 Inl e \<Rightarrow> Inl e
               | Inr t \<Rightarrow> Inr (Some (Triplet t)))
            else if length verts = 4 then
              (case QuadRegion_init (x_ngon_vertex_order ext) verts positions of
                 Inl e \<Rightarrow> Inl e
               | Inr q \<Rightarrow> Inr (Some (QuadRegion q)))
            else Inl AssertionError)"

text \<open>The local variables of \<^verbatim>\<open>_configure_full\<close> up to the call of the hull.\<close>

definition layout_extra :: "Layout \<Rightarrow> Layout" where
  "layout_extra layout =
     layout\<lparr>channels := channels layout @ fst (extra_pos_vertical_nominal layout)\<rparr>"

definition positions_nominal :: "externals \<Rightarrow> Layout \<Rightarrow> vec3 list" where
  "positions_nominal ext layout =
     x_nominal_positions ext (layout_extra layout) @ virtual_positions layout"

definition positions_real :: "externals \<Rightarrow> Layout \<Rightarrow> vec3 list" where
  "positions_real ext layout =
     x_norm_positions ext (layout_extra layout) @ virtual_positions layout"

definition virtual_verts :: "Layout \<Rightarrow> nat list" where
  "virtual_verts layout =
     map (\<lambda>k. length (channels (layout_extra layout)) + k)
       [0..<length (virtual_positions layout)]"

definition configure_full :: "externals \<Rightarrow> Layout \<Rightarrow> error + panner" where
  "configure_full ext layout =
     (case x_ConvexHull ext (positions_nominal ext layout) of
        Inl e \<Rightarrow> Inl e
      | Inr simplices \<Rightarrow>
          let facets = convex_hull_facets simplices in
          (case sequence (map (virtual_ngon ext facets (positions_real ext layout)
                                 (virtual_verts layout))
                             (virtual_verts layout)) of
             Inl e \<Rightarrow> Inl e
           | Inr ngons \<Rightarrow>
               (case sequence (map (facet_region ext (positions_real ext layout)
                                      (virtual_verts layout)) facets) of
                  Inl e \<Rightarrow> Inl e
                | Inr others \<Rightarrow>
                    (case PointSourcePanner_init (ngons @ List.map_filter id others) None of
                       Inl e \<Rightarrow> Inl e
                     | Inr psp \<Rightarrow>
                         Inr (PointSourcePannerDownmix psp
                                (snd (extra_pos_vertical_nominal layout)))))))"

text \<open>\<^verbatim>\<open>list.index\<close>: the first position of a value, ValueError when it is absent.\<close>

fun index :: "'a list \<Rightarrow> 'a \<Rightarrow> error + nat" where
  "index [] x = Inl ValueError"
| "index (y # ys) x =
     (if y = x then Inr 0 else (case index ys x of Inl e \<Rightarrow> Inl e | Inr i \<Rightarrow> Inr (i + 1)))"

text \<open>
  The constructor of StereoPanDownmix calls \<^verbatim>\<open>configure\<close> on the 0+5+0 layout of the
  table. Were that layout itself named 0+2+0, \<^verbatim>\<open>configure\<close> would construct another
  StereoPanDownmix for the same layout without end: Python raises RecursionError.
\<close>

definition StereoPanDownmix_init :: "externals \<Rightarrow> nat \<Rightarrow> nat \<Rightarrow> error + region" where
  "StereoPanDownmix_init ext left_channel right_channel =
     (case x_get_layout ext ''0+5+0'' of
        Inl e \<Rightarrow> Inl e
      | Inr table \<Rightarrow>
          let layout = without_lfe table in
          if channel_names layout \<noteq> [''M+030'', ''M-030'', ''M+000'', ''M+110'', ''M-110'']
          then Inl AssertionError
          else if layout_name layout = ''0+2+0'' then Inl RecursionError
          else
            (case configure_full ext layout of
               Inl e \<Rightarrow> Inl e
             | Inr psp \<Rightarrow> Inr (StereoPanDownmix left_channel right_channel psp)))"

definition configure_stereo :: "externals \<Rightarrow> Layout \<Rightarrow> error + panner" where
  "configure_stereo ext layout =
     (case index (channel_names layout) ''M+030'' of
        Inl e \<Rightarrow> Inl e
      | Inr left_channel \<Rightarrow>
          (case index (channel_names layout) ''M-030'' of
             Inl e \<Rightarrow> Inl e
           | Inr right_channel \<Rightarrow>
               (case StereoPanDownmix_init ext left_channel right_channel of
                  Inl e \<Rightarrow> Inl e
                | Inr panner \<Rightarrow> PointSourcePanner_init [panner] None)))"

definition configure :: "externals \<Rightarrow> Layout \<Rightarrow> error + panner" where
  "configure ext layout =
     (if \<exists>channel\<in>set (channels layout). is_lfe channel then Inl AssertionError
      else if layout_name layout = ''0+2+0'' then configure_stereo ext layout
      else configure_full ext layout)"

section \<open>Properties\<close>

subsection \<open>Norms and the inverse basis\<close>


lemma sq_sum_nonneg: "0 \<le> sum_list (map (\<lambda>x. x * x) (v::real list))"
  by (induction v) auto

lemma sq_sum_zero: "sum_list (map (\<lambda>x. x * x) v) = 0 \<longleftrightarrow> (\<forall>x\<in>set v. x = (0::real))"
proof (induction v)
  case Nil show ?case by simp
next
  case (Cons a v)
  have "a * a + sum_list (map (\<lambda>x. x * x) v) = 0 \<longleftrightarrow> a * a = 0 \<and> sum_list (map (\<lambda>x. x * x) v) = 0"
    using sq_sum_nonneg[of v] by (intro add_nonneg_eq_0_iff) auto
  with Cons show ?case by auto
qed

lemma norm_l2_nonneg: "norm_l2 v \<ge> 0"
  by (simp add: norm_l2_def sq_sum_nonneg)

lemma norm_l2_zero_iff: "norm_l2 v = 0 \<longleftrightarrow> (\<forall>x\<in>set v. x = 0)"
  by (simp add: norm_l2_def sq_sum_zero)

lemma norm_l2_scale: "norm_l2 (map (\<lambda>x. x * c) v) = \<bar>c\<bar> * norm_l2 v"
proof -
  have "sum_list (map (\<lambda>x. x * x) (map (\<lambda>x. x * c) v)) = c^2 * sum_list (map (\<lambda>x. x * x) v)"
    by (induction v) (auto simp: power2_eq_square algebra_simps)
  thus ?thesis by (simp add: norm_l2_def real_sqrt_mult)
qed

lemma norm_l2_normalised: "norm_l2 v \<noteq> 0 \<Longrightarrow> norm_l2 (map (\<lambda>x. x / norm_l2 v) v) = 1"
  using norm_l2_scale[of "1 / norm_l2 v" v] norm_l2_nonneg[of v] by (simp add: divide_inverse)



subsection \<open>Triplet\<close>



lemma gains_dot3: "gains_dot [a, b, c] [r0, r1, r2] = vec_mat3 (a, b, c) (r0, r1, r2)"
  by (cases r0; cases r1; cases r2) simp






lemma sqrt_sq: "0 \<le> r \<Longrightarrow> x = r * r \<Longrightarrow> sqrt x = r"
  by (simp add: real_sqrt_mult)

lemma norm_l2_340: "norm_l2 [3, 4, 0] = 5"
  unfolding norm_l2_def by (rule sqrt_sq) simp_all







subsection \<open>PointSourcePanner\<close>

lemma length_assign: "length (assign out idx xs) = length out"
  by (induction out idx xs rule: assign.induct) auto

lemma assign_other: "i \<notin> set idx \<Longrightarrow> assign out idx xs ! i = out ! i"
  by (induction out idx xs rule: assign.induct) auto

lemma assign_last:
  assumes "length xs = length idx" "k < length idx" "idx ! k < length out"
    and "\<forall>k'. k < k' \<and> k' < length idx \<longrightarrow> idx ! k' \<noteq> idx ! k"
  shows "assign out idx xs ! (idx ! k) = xs ! k"
  using assms
proof (induction out idx xs arbitrary: k rule: assign.induct)
  case (1 out i idx x xs)
  show ?case
  proof (cases k)
    case 0
    have "i \<notin> set idx"
    proof
      assume "i \<in> set idx"
      then obtain m where "m < length idx" "idx ! m = i" by (auto simp: in_set_conv_nth)
      with 1(5)[rule_format, of "Suc m"] 0 show False by simp
    qed
    then show ?thesis using 0 1(4) by (simp add: assign_other)
  next
    case (Suc m)
    have "assign (out[i := x]) idx xs ! (idx ! m) = xs ! m"
    proof (rule 1(1))
      show "length xs = length idx" using 1(2) by simp
      show "m < length idx" using 1(3) Suc by simp
      show "idx ! m < length (out[i := x])" using 1(4) Suc by simp
      show "\<forall>k'. m < k' \<and> k' < length idx \<longrightarrow> idx ! k' \<noteq> idx ! m"
      proof (intro allI impI)
        fix k' assume "m < k' \<and> k' < length idx"
        with 1(5)[rule_format, of "Suc k'"] Suc show "idx ! k' \<noteq> idx ! m" by simp
      qed
    qed
    then show ?thesis using Suc by simp
  qed
qed auto

lemma remap_Arr:
  assumes "\<forall>c\<in>set chans. c < n" "length g = length chans"
  shows "remap chans n (Arr g) = Inr (Arr (assign (replicate n 0) chans g))"
  using assms by (auto simp: remap_def)

lemma remap_NaN:
  assumes "\<forall>c\<in>set chans. c < n"
  shows "remap chans n NaNArr = Inr NaNArr"
  using assms by (auto simp: remap_def)

lemma handle_remap_None_iff: "handle_remap chans r n = Inr None \<longleftrightarrow> r = Inr None"
  by (auto simp: handle_remap_def split: sum.splits option.splits)

lemma panner_handle_None_iff:
  "panner_handle np_roots (PointSourcePanner regions n) p = Inr None \<longleftrightarrow>
     (\<forall>r\<in>set regions. region_handle np_roots r p = Inr None)"
proof (induction regions)
  case Nil show ?case by simp
next
  case (Cons r rs)
  show ?case
  proof (cases "region_handle np_roots r p = Inr None")
    case True
    then show ?thesis using Cons by (simp add: handle_remap_def)
  next
    case False
    then have "handle_remap (output_channels r) (region_handle np_roots r p) n \<noteq> Inr None"
      by (simp add: handle_remap_None_iff)
    then show ?thesis using False by (auto split: sum.splits option.splits)
  qed
qed

lemma panner_handle_skip:
  assumes "\<forall>q\<in>set pre. region_handle np_roots q p = Inr None"
  shows "panner_handle np_roots (PointSourcePanner (pre @ rs) n) p =
         panner_handle np_roots (PointSourcePanner rs n) p"
  using assms by (induction pre) (auto simp: handle_remap_def)

lemma num_required_channels_bound:
  assumes "num_required_channels regions = Inr m" "r \<in> set regions" "c \<in> set (output_channels r)"
  shows "c < m"
proof -
  from assms(1) have ne: "regions \<noteq> []" "\<forall>r\<in>set regions. output_channels r \<noteq> []"
    and m: "m = Max (set (map (\<lambda>r. Max (set (output_channels r))) regions)) + 1"
    by (auto simp: num_required_channels_def split: if_splits)
  have "c \<le> Max (set (output_channels r))" using assms(3) by simp
  also have "\<dots> \<le> Max (set (map (\<lambda>r. Max (set (output_channels r))) regions))"
    using assms(2) by (intro Max_ge) auto
  finally show ?thesis using m by simp
qed

lemma PointSourcePanner_init_bound:
  assumes "PointSourcePanner_init regions num_channels = Inr psp"
  shows "\<exists>n. psp = PointSourcePanner regions n \<and> (\<forall>r\<in>set regions. \<forall>c\<in>set (output_channels r). c < n)
     \<and> (\<forall>m. num_channels = Some m \<longrightarrow> n = m)"
proof -
  from assms obtain m where m: "num_required_channels regions = Inr m"
    by (auto simp: PointSourcePanner_init_def split: sum.splits)
  from assms m obtain n where n: "psp = PointSourcePanner regions n" "m \<le> n" "\<forall>k. num_channels = Some k \<longrightarrow> n = k"
    by (auto simp: PointSourcePanner_init_def split: option.splits if_splits)
  have "\<forall>r\<in>set regions. \<forall>c\<in>set (output_channels r). c < n"
    using num_required_channels_bound[OF m] n(2) by fastforce
  with n show ?thesis by blast
qed


text \<open>
  Claim C5. For a panner built by the constructor of PointSourcePanner, \<open>handle\<close>
  returns \<open>None\<close> iff \<open>handle\<close> of every region returns \<open>None\<close>. When the regions before
  \<open>r\<close> return \<open>None\<close> and \<open>r\<close> returns gains \<open>g\<close>, as many as it has output channels,
  the panner returns an array of length \<open>num_channels\<close> that holds \<open>g ! k\<close> at the
  \<open>k\<close>-th output channel of \<open>r\<close> (at the last occurrence, should a channel repeat) and 0
  at every index that is no output channel of \<open>r\<close>.
\<close>

theorem PointSourcePanner_handle_dispatch:
  assumes init: "PointSourcePanner_init regions num_channels = Inr psp"
  shows "(panner_handle np_roots psp p = Inr None \<longleftrightarrow>
            (\<forall>r\<in>set regions. region_handle np_roots r p = Inr None)) \<and>
         (\<forall>pre r post g.
            regions = pre @ r # post \<and>
            (\<forall>q\<in>set pre. region_handle np_roots q p = Inr None) \<and>
            region_handle np_roots r p = Inr (Some (Arr g)) \<and>
            length g = length (output_channels r) \<longrightarrow>
            (\<exists>out n. psp = PointSourcePanner regions n \<and>
               (\<forall>m. num_channels = Some m \<longrightarrow> n = m) \<and>
               panner_handle np_roots psp p = Inr (Some (Arr out)) \<and>
               length out = n \<and>
               (\<forall>k<length g.
                  (\<forall>k'. k < k' \<and> k' < length g \<longrightarrow>
                     output_channels r ! k' \<noteq> output_channels r ! k) \<longrightarrow>
                  out ! (output_channels r ! k) = g ! k) \<and>
               (\<forall>i<n. i \<notin> set (output_channels r) \<longrightarrow> out ! i = 0)))"
proof -
  from PointSourcePanner_init_bound[OF init] obtain n where
    psp: "psp = PointSourcePanner regions n"
    and bound: "\<forall>r\<in>set regions. \<forall>c\<in>set (output_channels r). c < n"
    and given: "\<forall>m. num_channels = Some m \<longrightarrow> n = m" by blast
  have none: "panner_handle np_roots psp p = Inr None \<longleftrightarrow>
            (\<forall>r\<in>set regions. region_handle np_roots r p = Inr None)"
    unfolding psp by (rule panner_handle_None_iff)
  have first: "\<exists>out n. psp = PointSourcePanner regions n \<and>
               (\<forall>m. num_channels = Some m \<longrightarrow> n = m) \<and>
               panner_handle np_roots psp p = Inr (Some (Arr out)) \<and>
               length out = n \<and>
               (\<forall>k<length g.
                  (\<forall>k'. k < k' \<and> k' < length g \<longrightarrow>
                     output_channels r ! k' \<noteq> output_channels r ! k) \<longrightarrow>
                  out ! (output_channels r ! k) = g ! k) \<and>
               (\<forall>i<n. i \<notin> set (output_channels r) \<longrightarrow> out ! i = 0)"
    if dec: "regions = pre @ r # post"
      and pre: "\<forall>q\<in>set pre. region_handle np_roots q p = Inr None"
      and r: "region_handle np_roots r p = Inr (Some (Arr g))"
      and len: "length g = length (output_channels r)"
    for pre r post g
  proof -
    define out where "out = assign (replicate n 0) (output_channels r) g"
    have rb: "\<forall>c\<in>set (output_channels r). c < n" using bound dec by simp
    have "panner_handle np_roots psp p =
          panner_handle np_roots (PointSourcePanner (r # post) n) p"
      unfolding psp dec by (rule panner_handle_skip[OF pre])
    also have "\<dots> = Inr (Some (Arr out))"
      using r remap_Arr[OF rb len] by (simp add: handle_remap_def out_def)
    finally have h: "panner_handle np_roots psp p = Inr (Some (Arr out))" .
    have l: "length out = n" by (simp add: out_def length_assign)
    have a: "out ! (output_channels r ! k) = g ! k"
      if "k < length g"
        "\<forall>k'. k < k' \<and> k' < length g \<longrightarrow> output_channels r ! k' \<noteq> output_channels r ! k"
      for k
      unfolding out_def using that len rb by (intro assign_last) auto
    have z: "out ! i = 0" if "i < n" "i \<notin> set (output_channels r)" for i
      unfolding out_def using that by (simp add: assign_other)
    show ?thesis using psp given h l a z by blast
  qed
  show ?thesis using none first by blast
qed

lemma Triplet_neg: "Triplet_init [3, 4, 5] ((-1, 0, 0), (0, -1, 0), (0, 0, -1)) = Inr T_neg"
  by (simp add: Triplet_init_def T_neg_def Let_def)

lemma T_unit_340: "Triplet_handle T_unit (3, 4, 0) = Some (Arr [3 / 5, 4 / 5, 0])"
  by (simp add: Triplet_handle_def T_unit_def epsilon_triplet_def normalise_def norm_l2_340 clip_def)

lemma T_neg_340: "Triplet_handle T_neg (3, 4, 0) = None"
  by (simp add: Triplet_handle_def T_neg_def epsilon_triplet_def)

lemma two_triplets_init:
  "PointSourcePanner_init [Triplet T_neg, Triplet T_unit] None =
     Inr (PointSourcePanner [Triplet T_neg, Triplet T_unit] 6)"
  by (simp add: PointSourcePanner_init_def num_required_channels_def T_neg_def T_unit_def)

text \<open>
  The theorem at a panner of two triplets: the first does not cover \<open>(3, 4, 0)\<close>, the
  second does.
\<close>

theorem PointSourcePanner_handle_dispatch_witness:
  "PointSourcePanner_init [Triplet T_neg, Triplet T_unit] None =
     Inr (PointSourcePanner [Triplet T_neg, Triplet T_unit] 6) \<and>
   region_handle (\<lambda>c. []) (Triplet T_neg) (3, 4, 0) = Inr None \<and>
   region_handle (\<lambda>c. []) (Triplet T_unit) (3, 4, 0) = Inr (Some (Arr [3 / 5, 4 / 5, 0])) \<and>
   (\<exists>out. panner_handle (\<lambda>c. []) (PointSourcePanner [Triplet T_neg, Triplet T_unit] 6) (3, 4, 0)
            = Inr (Some (Arr out)) \<and>
          length out = 6 \<and> out ! 0 = 3 / 5 \<and> out ! 1 = 4 / 5 \<and> out ! 2 = 0 \<and>
          out ! 3 = 0 \<and> out ! 4 = 0 \<and> out ! 5 = 0)"
proof -
  have a: "region_handle (\<lambda>c. []) (Triplet T_neg) (3, 4, 0) = Inr None"
    by (simp add: T_neg_340)
  have b: "region_handle (\<lambda>c. []) (Triplet T_unit) (3, 4, 0) = Inr (Some (Arr [3 / 5, 4 / 5, 0]))"
    by (simp add: T_unit_340)
  have oc: "output_channels (Triplet T_unit) = [0, 1, 2]" by (simp add: T_unit_def)
  from PointSourcePanner_handle_dispatch[OF two_triplets_init, of "\<lambda>c. []" "(3, 4, 0)"]
  have "\<forall>pre r post g.
            [Triplet T_neg, Triplet T_unit] = pre @ r # post \<and>
            (\<forall>q\<in>set pre. region_handle (\<lambda>c. []) q (3, 4, 0) = Inr None) \<and>
            region_handle (\<lambda>c. []) r (3, 4, 0) = Inr (Some (Arr g)) \<and>
            length g = length (output_channels r) \<longrightarrow>
            (\<exists>out n. PointSourcePanner [Triplet T_neg, Triplet T_unit] 6 = PointSourcePanner [Triplet T_neg, Triplet T_unit] n \<and>
               (\<forall>m. (None::nat option) = Some m \<longrightarrow> n = m) \<and>
               panner_handle (\<lambda>c. []) (PointSourcePanner [Triplet T_neg, Triplet T_unit] 6) (3, 4, 0) = Inr (Some (Arr out)) \<and>
               length out = n \<and>
               (\<forall>k<length g.
                  (\<forall>k'. k < k' \<and> k' < length g \<longrightarrow>
                     output_channels r ! k' \<noteq> output_channels r ! k) \<longrightarrow>
                  out ! (output_channels r ! k) = g ! k) \<and>
               (\<forall>i<n. i \<notin> set (output_channels r) \<longrightarrow> out ! i = 0))"
    by (rule conjunct2)
  from this[rule_format, of "[Triplet T_neg]" "Triplet T_unit" "[]" "[3 / 5, 4 / 5, 0]"] a b
  obtain out where h: "panner_handle (\<lambda>c. []) (PointSourcePanner [Triplet T_neg, Triplet T_unit] 6) (3, 4, 0) = Inr (Some (Arr out))"
    and l: "length out = 6"
    and g: "\<forall>k<3. (\<forall>k'. k < k' \<and> k' < 3 \<longrightarrow> [0, 1, 2::nat] ! k' \<noteq> [0, 1, 2] ! k) \<longrightarrow> out ! ([0, 1, 2] ! k) = [3 / 5, 4 / 5, 0] ! k"
    and z: "\<forall>i<6. i \<notin> set [0, 1, 2::nat] \<longrightarrow> out ! i = 0"
    unfolding oc by auto
  have "out ! 0 = 3 / 5" using g[rule_format, of 0] by (auto simp: nth_Cons')
  moreover have "out ! 1 = 4 / 5" using g[rule_format, of 1] by (auto simp: nth_Cons')
  moreover have "out ! 2 = 0" using g[rule_format, of 2] by (auto simp: nth_Cons')
  moreover have "out ! 3 = 0" "out ! 4 = 0" "out ! 5 = 0" using z by auto
  ultimately show ?thesis using two_triplets_init a b h l by blast
qed

subsection \<open>VirtualNgon\<close>

lemma sequence_map:
  "sequence (map f xs) = Inr ys \<Longrightarrow>
     length ys = length xs \<and> (\<forall>i<length xs. f (xs ! i) = Inr (ys ! i))"
proof (induction xs arbitrary: ys)
  case Nil then show ?case by simp
next
  case (Cons x xs)
  from Cons.prems obtain y zs where y: "f x = Inr y" and zs: "sequence (map f xs) = Inr zs"
    and ys: "ys = y # zs" by (auto split: sum.splits)
  from Cons.IH[OF zs] have "length zs = length xs" "\<forall>i<length xs. f (xs ! i) = Inr (zs ! i)" by auto
  then show ?case using y ys by (auto simp: nth_Cons')
qed

lemma Triplet_handle_cases:
  "Triplet_handle t p = None \<or> Triplet_handle t p = Some NaNArr \<or>
   (\<exists>a b c. Triplet_handle t p = Some (Arr [a, b, c]))"
proof -
  obtain a b c where q: "vec_mat3 p (t_basis t) = (a, b, c)" by (metis prod_cases3)
  show ?thesis by (simp add: Triplet_handle_def q normalise_def)
qed

lemma inv3_rows_distinct:
  assumes "inv3 (r0, r1, r2) = Inr b" shows "r0 \<noteq> r1"
proof
  assume e: "r0 = r1"
  obtain a b' c where r: "r1 = (a, b', c)" by (metis prod_cases3)
  obtain g h i where r2: "r2 = (g, h, i)" by (metis prod_cases3)
  have "det3 (r0, r1, r2) = 0" unfolding e r r2 by (simp add: algebra_simps)
  with assms show False unfolding e r r2 by (simp add: Let_def)
qed

lemma VirtualNgon_triplet_ok:
  assumes "VirtualNgon_triplet order positions centre n i = Inr t"
  shows "i < length order" "(i + 1) mod n < length order"
    "order ! i < length positions" "order ! ((i + 1) mod n) < length positions"
    "Triplet_init [order ! i, order ! ((i + 1) mod n), n]
       (positions ! (order ! i), positions ! (order ! ((i + 1) mod n)), centre) = Inr t"
    "t_output_channels t = [order ! i, order ! ((i + 1) mod n), n]"
    "order ! i \<noteq> order ! ((i + 1) mod n)"
proof -
  from assms show 1: "i < length order" "(i + 1) mod n < length order"
    "order ! i < length positions" "order ! ((i + 1) mod n) < length positions"
    by (auto simp: VirtualNgon_triplet_def Let_def split: if_splits)
  with assms show 2: "Triplet_init [order ! i, order ! ((i + 1) mod n), n]
       (positions ! (order ! i), positions ! (order ! ((i + 1) mod n)), centre) = Inr t"
    by (auto simp: VirtualNgon_triplet_def Let_def split: if_splits)
  then show "t_output_channels t = [order ! i, order ! ((i + 1) mod n), n]"
    by (auto simp: Triplet_init_def split: sum.splits)
  from 2 have "inv3 (positions ! (order ! i), positions ! (order ! ((i + 1) mod n)), centre) = Inr (t_basis t)"
    by (auto simp: Triplet_init_def split: sum.splits)
  from inv3_rows_distinct[OF this] show "order ! i \<noteq> order ! ((i + 1) mod n)" by auto
qed

lemma VirtualNgon_init_regions:
  assumes "VirtualNgon_init nvo chans positions centre dm = Inr g"
  shows "length positions = length chans" "length dm = length chans"
    "n_centre_downmix g = dm" "n_output_channels g = chans"
    "length (n_regions g) = length chans"
    "\<forall>i<length chans. VirtualNgon_triplet (nvo positions) positions centre (length chans) i
         = Inr (n_regions g ! i)"
proof -
  from assms show l: "length positions = length chans" "length dm = length chans"
    by (auto simp: VirtualNgon_init_def Let_def split: if_splits)
  from assms l obtain rs where
    s: "sequence (map (VirtualNgon_triplet (nvo positions) positions centre (length chans)) [0..<length chans]) = Inr rs"
    and g: "g = \<lparr>n_output_channels = chans, n_positions = positions,
                 n_centre_position = centre, n_centre_downmix = dm, n_regions = rs\<rparr>"
    by (auto simp: VirtualNgon_init_def Let_def split: if_splits sum.splits)
  from g show "n_centre_downmix g = dm" "n_output_channels g = chans" by simp_all
  from sequence_map[OF s] g show "length (n_regions g) = length chans"
    "\<forall>i<length chans. VirtualNgon_triplet (nvo positions) positions centre (length chans) i
         = Inr (n_regions g ! i)" by auto
qed

lemma handle_remap_triplet_None:
  "handle_remap chans (Inr (Triplet_handle t p)) m = Inr None \<longleftrightarrow> Triplet_handle t p = None"
  by (auto simp: handle_remap_def split: option.splits sum.splits)

lemma VirtualNgon_loop_None_iff:
  assumes "\<forall>t\<in>set ts. slot_ok (length dm) t"
  shows "VirtualNgon_loop ts dm p = Inr None \<longleftrightarrow> (\<forall>t\<in>set ts. Triplet_handle t p = None)"
  using assms
proof (induction ts)
  case Nil show ?case by simp
next
  case (Cons t ts)
  from Cons.prems obtain x y where c: "t_output_channels t = [x, y, length dm]" "x < length dm" "y < length dm"
    by (auto simp: slot_ok_def)
  from Triplet_handle_cases[of t p] show ?case
  proof (elim disjE exE)
    assume "Triplet_handle t p = None"
    then show ?thesis using Cons by (simp add: handle_remap_def)
  next
    assume "Triplet_handle t p = Some NaNArr"
    then show ?thesis using c by (simp add: handle_remap_def remap_def)
  next
    fix a b c' assume "Triplet_handle t p = Some (Arr [a, b, c'])"
    then show ?thesis using c by (simp add: handle_remap_def remap_def)
  qed
qed

lemma VirtualNgon_loop_skip:
  assumes "\<forall>t\<in>set pre. Triplet_handle t p = None"
  shows "VirtualNgon_loop (pre @ ts) dm p = VirtualNgon_loop ts dm p"
  using assms by (induction pre) (auto simp: handle_remap_def)

lemma fold_centre:
  assumes "x < n" "y < n" "x \<noteq> y" "length dm = n"
  shows "map2 (+) (butlast (assign (replicate (n + 1) 0) [x, y, n] [a, b, c]))
           (map (\<lambda>d. last (assign (replicate (n + 1) 0) [x, y, n] [a, b, c]) * d) dm)
       = map (\<lambda>k. (if k = x then a else if k = y then b else 0) + c * dm ! k) [0..<n]"
proof -
  define z where "z = replicate (n + 1) (0::real)"
  have lz: "length z = n + 1" by (simp add: z_def)
  have nz: "\<And>k. k < n + 1 \<Longrightarrow> z ! k = 0" unfolding z_def by (rule nth_replicate)
  define v where "v = assign z [x, y, n] [a, b, c]"
  have v: "v = z[x := a, y := b, n := c]" by (simp add: v_def)
  have lv: "length v = n + 1" by (simp add: v lz)
  have "v \<noteq> []" using lv by auto
  then have "last v = v ! n" using lv by (simp add: last_conv_nth)
  also have "\<dots> = c" unfolding v using lz by simp
  finally have last: "last v = c" .
  have bl: "\<And>k. k < n \<Longrightarrow> butlast v ! k = (if k = x then a else if k = y then b else 0)"
    using assms lv lz nz by (auto simp: nth_butlast v nth_list_update)
  show ?thesis unfolding z_def[symmetric] v_def[symmetric] last
    by (rule nth_equalityI) (use lv assms bl in auto)
qed

lemma VirtualNgon_loop_head:
  assumes "slot_ok (length dm) t" "t_output_channels t = [x, y, length dm]"
  shows "Triplet_handle t p = Some NaNArr \<Longrightarrow> VirtualNgon_loop (t # ts) dm p = Inr (Some NaNArr)"
    and "Triplet_handle t p = Some (Arr [a, b, c]) \<Longrightarrow>
         VirtualNgon_loop (t # ts) dm p =
           Inr (Some (normalise (map (\<lambda>k. (if k = x then a else if k = y then b else 0) + c * dm ! k)
                                    [0..<length dm])))"
proof -
  from assms have c: "x < length dm" "y < length dm" "x \<noteq> y" by (auto simp: slot_ok_def)
  show "Triplet_handle t p = Some NaNArr \<Longrightarrow> VirtualNgon_loop (t # ts) dm p = Inr (Some NaNArr)"
    using assms(2) c by (simp add: handle_remap_def remap_def)
  assume h: "Triplet_handle t p = Some (Arr [a, b, c])"
  have "VirtualNgon_loop (t # ts) dm p =
        Inr (Some (centre_fold dm (Arr (assign (replicate (length dm + 1) 0) [x, y, length dm] [a, b, c]))))"
    using h assms(2) c by (simp add: handle_remap_def remap_def)
  then show "VirtualNgon_loop (t # ts) dm p =
           Inr (Some (normalise (map (\<lambda>k. (if k = x then a else if k = y then b else 0) + c * dm ! k)
                                    [0..<length dm])))"
    using fold_centre[OF c refl, of a b c] by simp
qed

lemma upt3: "[0..<3] = [0, 1, 2]"
  by (simp add: upt_rec)

lemma G_rot_init:
  "VirtualNgon_init order_201 [0, 1, 2] ring3 (0, 0, 1) [1 / 3, 2 / 3, 2 / 3] = Inr G_rot"
  by (simp add: VirtualNgon_init_def order_201_def ring3_def G_rot_def upt3
      VirtualNgon_triplet_def Triplet_init_def Let_def)

lemma G_rot_spec_init:
  "VirtualNgon_init_spec order_201 [0, 1, 2] ring3 (0, 0, 1) [1 / 3, 2 / 3, 2 / 3] = Inr G_rot_spec"
  by (simp add: VirtualNgon_init_spec_def order_201_def ring3_def G_rot_spec_def upt3
      spec_sub_triplet_def Triplet_init_def Let_def)

lemma VirtualNgon_regions_slot_ok:
  assumes init: "VirtualNgon_init nvo chans positions centre dm = Inr g"
    and i: "i < length chans"
  shows "slot_ok (length dm) (n_regions g ! i)"
    and "t_output_channels (n_regions g ! i) =
           [nvo positions ! i, nvo positions ! ((i + 1) mod length chans), length dm]"
proof -
  note r = VirtualNgon_init_regions[OF init]
  from r(6) i have t: "VirtualNgon_triplet (nvo positions) positions centre (length chans) i
         = Inr (n_regions g ! i)" by simp
  note k = VirtualNgon_triplet_ok[OF t]
  show "t_output_channels (n_regions g ! i) =
           [nvo positions ! i, nvo positions ! ((i + 1) mod length chans), length dm]"
    using k(6) r(2) by simp
  then show "slot_ok (length dm) (n_regions g ! i)"
    using k(3,4,7) r(1,2) by (auto simp: slot_ok_def)
qed

text \<open>
  Claim C4, as the code has it. A VirtualNgon over \<open>n\<close> speakers has \<open>n\<close> sub-triplets; the
  \<open>i\<close>-th is the Triplet of the speakers \<open>order[i]\<close> and \<open>order[i+1 mod n]\<close> and the centre,
  with the output slots \<open>[order[i], order[i+1 mod n], n]\<close>, where \<open>order\<close> is the cyclic
  vertex order. \<open>handle\<close> returns \<open>None\<close> iff no sub-triplet answers. When the sub-triplets
  before the \<open>i\<close>-th return \<open>None\<close> and the \<open>i\<close>-th returns \<open>[a, b, c]\<close>, the result is the
  L2-normalisation of the \<open>n\<close>-vector \<open>v[k] + v[n] * centre_downmix[k]\<close>, where \<open>v\<close> holds
  \<open>a\<close> at \<open>order[i]\<close>, \<open>b\<close> at \<open>order[i+1 mod n]\<close>, \<open>c\<close> at \<open>n\<close> and 0 elsewhere.
\<close>

theorem VirtualNgon_handle_first:
  assumes init: "VirtualNgon_init nvo chans positions centre dm = Inr g"
  shows "length (n_regions g) = length chans \<and>
    (\<forall>i<length chans.
       Triplet_init [nvo positions ! i, nvo positions ! ((i + 1) mod length chans), length chans]
         (positions ! (nvo positions ! i), positions ! (nvo positions ! ((i + 1) mod length chans)),
          centre) = Inr (n_regions g ! i)) \<and>
    (VirtualNgon_handle g p = Inr None \<longleftrightarrow>
       (\<forall>t\<in>set (n_regions g). Triplet_handle t p = None)) \<and>
    (\<forall>i<length chans.
       (\<forall>k<i. Triplet_handle (n_regions g ! k) p = None) \<longrightarrow>
       (Triplet_handle (n_regions g ! i) p = Some NaNArr \<longrightarrow>
          VirtualNgon_handle g p = Inr (Some NaNArr)) \<and>
       (\<forall>a b c. Triplet_handle (n_regions g ! i) p = Some (Arr [a, b, c]) \<longrightarrow>
          VirtualNgon_handle g p =
            Inr (Some (normalise
              (map (\<lambda>k. (if k = nvo positions ! i then a
                         else if k = nvo positions ! ((i + 1) mod length chans) then b
                         else 0) + c * dm ! k)
                 [0..<length chans])))))"
proof -
  note r = VirtualNgon_init_regions[OF init]
  have len: "length (n_regions g) = length chans" by (rule r(5))
  have tri: "Triplet_init [nvo positions ! i, nvo positions ! ((i + 1) mod length chans), length chans]
         (positions ! (nvo positions ! i), positions ! (nvo positions ! ((i + 1) mod length chans)),
          centre) = Inr (n_regions g ! i)" if "i < length chans" for i
    using VirtualNgon_triplet_ok(5)[of "nvo positions" positions centre "length chans" i "n_regions g ! i"]
      r(6) that by simp
  have ok: "\<forall>t\<in>set (n_regions g). slot_ok (length dm) t"
    using VirtualNgon_regions_slot_ok(1)[OF init] len by (auto simp: in_set_conv_nth)
  have none: "VirtualNgon_handle g p = Inr None \<longleftrightarrow>
       (\<forall>t\<in>set (n_regions g). Triplet_handle t p = None)"
    unfolding VirtualNgon_handle_def r(3) by (rule VirtualNgon_loop_None_iff[OF ok])
  have first: "(Triplet_handle (n_regions g ! i) p = Some NaNArr \<longrightarrow>
          VirtualNgon_handle g p = Inr (Some NaNArr)) \<and>
       (\<forall>a b c. Triplet_handle (n_regions g ! i) p = Some (Arr [a, b, c]) \<longrightarrow>
          VirtualNgon_handle g p =
            Inr (Some (normalise
              (map (\<lambda>k. (if k = nvo positions ! i then a
                         else if k = nvo positions ! ((i + 1) mod length chans) then b
                         else 0) + c * dm ! k)
                 [0..<length chans]))))"
    if i: "i < length chans" and pre: "\<forall>k<i. Triplet_handle (n_regions g ! k) p = None" for i
  proof -
    have dec: "n_regions g = take i (n_regions g) @ (n_regions g ! i) # drop (Suc i) (n_regions g)"
      using i len by (simp add: id_take_nth_drop)
    have p0: "\<forall>t\<in>set (take i (n_regions g)). Triplet_handle t p = None"
      using pre i len by (auto simp: in_set_conv_nth)
    have h: "VirtualNgon_handle g p =
          VirtualNgon_loop ((n_regions g ! i) # drop (Suc i) (n_regions g)) dm p"
      unfolding VirtualNgon_handle_def r(3)
      by (subst dec) (rule VirtualNgon_loop_skip[OF p0])
    note s = VirtualNgon_regions_slot_ok[OF init i]
    show ?thesis unfolding h
      using VirtualNgon_loop_head[OF s(1) s(2), of p] r(2) by simp
  qed
  show ?thesis using len tri none first by blast
qed

lemma G_rot_handle_centre: "Triplet_handle (n_regions G_rot ! 0) (0, 0, 1) = Some (Arr [0, 0, 1])"
  by (simp add: G_rot_def Triplet_handle_def epsilon_triplet_def normalise_def norm_l2_def clip_def)

lemma norm_l2_dm: "norm_l2 [1 / 3, 2 / 3, 2 / 3] = 1"
  by (simp add: norm_l2_def)

text \<open>The theorem at the ring of three speakers, with the source at the centre.\<close>

theorem VirtualNgon_handle_first_witness:
  "VirtualNgon_init order_201 [0, 1, 2] ring3 (0, 0, 1) [1 / 3, 2 / 3, 2 / 3] = Inr G_rot \<and>
   Triplet_handle (n_regions G_rot ! 0) (0, 0, 1) = Some (Arr [0, 0, 1]) \<and>
   VirtualNgon_handle G_rot (0, 0, 1) = Inr (Some (Arr [1 / 3, 2 / 3, 2 / 3]))"
proof -
  have m: "map (\<lambda>k. (if k = order_201 ring3 ! 0 then 0
                         else if k = order_201 ring3 ! ((0 + 1) mod length [0::nat, 1, 2]) then 0
                         else 0) + 1 * [1 / 3, 2 / 3, 2 / 3] ! k)
                 [0..<length [0::nat, 1, 2]] = [1 / 3, 2 / 3, 2 / 3::real]"
    by (simp add: upt3 order_201_def)
  have n: "normalise [1 / 3, 2 / 3, 2 / 3] = Arr [1 / 3, 2 / 3, 2 / 3]"
    by (simp add: normalise_def norm_l2_dm)
  from VirtualNgon_handle_first[OF G_rot_init, of "(0, 0, 1)"]
  have "\<forall>i<length [0::nat, 1, 2].
       (\<forall>k<i. Triplet_handle (n_regions G_rot ! k) (0, 0, 1) = None) \<longrightarrow>
       (Triplet_handle (n_regions G_rot ! i) (0, 0, 1) = Some NaNArr \<longrightarrow>
          VirtualNgon_handle G_rot (0, 0, 1) = Inr (Some NaNArr)) \<and>
       (\<forall>a b c. Triplet_handle (n_regions G_rot ! i) (0, 0, 1) = Some (Arr [a, b, c]) \<longrightarrow>
          VirtualNgon_handle G_rot (0, 0, 1) =
            Inr (Some (normalise
              (map (\<lambda>k. (if k = order_201 ring3 ! i then a
                         else if k = order_201 ring3 ! ((i + 1) mod length [0::nat, 1, 2]) then b
                         else 0) + c * [1 / 3, 2 / 3, 2 / 3] ! k)
                 [0..<length [0::nat, 1, 2]]))))"
    by blast
  from this[rule_format, of 0, THEN conjunct2, rule_format, of 0 0 1] G_rot_handle_centre
  have "VirtualNgon_handle G_rot (0, 0, 1) = Inr (Some (Arr [1 / 3, 2 / 3, 2 / 3]))"
    unfolding m n by simp
  with G_rot_init G_rot_handle_centre show ?thesis by blast
qed

text \<open>
  Claim C4 as stated fails where the vertex order is not the identity. With the order
  \<open>[2, 0, 1]\<close> the first sub-triplet has the output slots \<open>[2, 0, 3]\<close>, not \<open>[0, 1, 3]\<close>,
  and a source at speaker 2 gets the gains \<open>[0, 0, 1]\<close>; with the slots of the
  specification it would get \<open>[1, 0, 0]\<close>.
\<close>

theorem VirtualNgon_slots_counterexample:
  "VirtualNgon_init order_201 [0, 1, 2] ring3 (0, 0, 1) [1 / 3, 2 / 3, 2 / 3] = Inr G_rot \<and>
   VirtualNgon_init_spec order_201 [0, 1, 2] ring3 (0, 0, 1) [1 / 3, 2 / 3, 2 / 3] = Inr G_rot_spec \<and>
   t_output_channels (n_regions G_rot ! 0) = [2, 0, 3] \<and>
   t_output_channels (n_regions G_rot_spec ! 0) = [0, 1, 3] \<and>
   VirtualNgon_handle G_rot (-1, -1, 0) = Inr (Some (Arr [0, 0, 1])) \<and>
   VirtualNgon_handle G_rot_spec (-1, -1, 0) = Inr (Some (Arr [1, 0, 0]))"
proof (intro conjI)
  show "VirtualNgon_init order_201 [0, 1, 2] ring3 (0, 0, 1) [1 / 3, 2 / 3, 2 / 3] = Inr G_rot"
    by (rule G_rot_init)
  show "VirtualNgon_init_spec order_201 [0, 1, 2] ring3 (0, 0, 1) [1 / 3, 2 / 3, 2 / 3] = Inr G_rot_spec"
    by (rule G_rot_spec_init)
  show "t_output_channels (n_regions G_rot ! 0) = [2, 0, 3]" by (simp add: G_rot_def)
  show "t_output_channels (n_regions G_rot_spec ! 0) = [0, 1, 3]" by (simp add: G_rot_spec_def)
  have n1: "norm_l2 [1, 0, 0] = 1" "norm_l2 [0, 0, 1] = 1" by (simp_all add: norm_l2_def)
  show "VirtualNgon_handle G_rot (-1, -1, 0) = Inr (Some (Arr [0, 0, 1]))"
    by (simp add: VirtualNgon_handle_def G_rot_def Triplet_handle_def epsilon_triplet_def
        normalise_def n1 clip_def handle_remap_def remap_def)
  show "VirtualNgon_handle G_rot_spec (-1, -1, 0) = Inr (Some (Arr [1, 0, 0]))"
    by (simp add: VirtualNgon_handle_def G_rot_spec_def Triplet_handle_def epsilon_triplet_def
        normalise_def n1 clip_def handle_remap_def remap_def)
qed

subsection \<open>QuadRegion\<close>

lemma first_root_Some:
  "first_root rs = Some t \<longleftrightarrow>
     (\<exists>pre r post. rs = pre @ r # post \<and> (\<forall>r'\<in>set pre. \<not> root_ok r') \<and> root_ok r \<and>
        t = clip 0 1 (Re r))"
proof (induction rs)
  case Nil show ?case by simp
next
  case (Cons r0 rs)
  show ?case
  proof (cases "root_ok r0")
    case True
    have "(\<exists>pre r post. r0 # rs = pre @ r # post \<and> (\<forall>r'\<in>set pre. \<not> root_ok r') \<and> root_ok r \<and>
        t = clip 0 1 (Re r)) \<longleftrightarrow> t = clip 0 1 (Re r0)"
    proof
      assume "\<exists>pre r post. r0 # rs = pre @ r # post \<and> (\<forall>r'\<in>set pre. \<not> root_ok r') \<and> root_ok r \<and>
        t = clip 0 1 (Re r)"
      then obtain pre r post where d: "r0 # rs = pre @ r # post" "\<forall>r'\<in>set pre. \<not> root_ok r'"
        "t = clip 0 1 (Re r)" by blast
      from d(1,2) True have "pre = []" by (cases pre) auto
      with d show "t = clip 0 1 (Re r0)" by simp
    next
      assume "t = clip 0 1 (Re r0)"
      then have "r0 # rs = [] @ r0 # rs \<and> (\<forall>r'\<in>set []. \<not> root_ok r') \<and> root_ok r0 \<and>
        t = clip 0 1 (Re r0)" using True by simp
      then show "\<exists>pre r post. r0 # rs = pre @ r # post \<and> (\<forall>r'\<in>set pre. \<not> root_ok r') \<and> root_ok r \<and>
        t = clip 0 1 (Re r)" by blast
    qed
    then show ?thesis using True by auto
  next
    case False
    have "(\<exists>pre r post. r0 # rs = pre @ r # post \<and> (\<forall>r'\<in>set pre. \<not> root_ok r') \<and> root_ok r \<and>
        t = clip 0 1 (Re r)) \<longleftrightarrow>
          (\<exists>pre r post. rs = pre @ r # post \<and> (\<forall>r'\<in>set pre. \<not> root_ok r') \<and> root_ok r \<and>
        t = clip 0 1 (Re r))"
    proof
      assume "\<exists>pre r post. r0 # rs = pre @ r # post \<and> (\<forall>r'\<in>set pre. \<not> root_ok r') \<and> root_ok r \<and>
        t = clip 0 1 (Re r)"
      then obtain pre r post where d: "r0 # rs = pre @ r # post" "\<forall>r'\<in>set pre. \<not> root_ok r'"
        "root_ok r" "t = clip 0 1 (Re r)" by blast
      from d(1,3) False obtain pre' where "pre = r0 # pre'" by (cases pre) auto
      with d have "rs = pre' @ r # post \<and> (\<forall>r'\<in>set pre'. \<not> root_ok r') \<and> root_ok r \<and>
        t = clip 0 1 (Re r)" by simp
      then show "\<exists>pre r post. rs = pre @ r # post \<and> (\<forall>r'\<in>set pre. \<not> root_ok r') \<and> root_ok r \<and>
        t = clip 0 1 (Re r)" by blast
    next
      assume "\<exists>pre r post. rs = pre @ r # post \<and> (\<forall>r'\<in>set pre. \<not> root_ok r') \<and> root_ok r \<and>
        t = clip 0 1 (Re r)"
      then obtain pre r post where d: "rs = pre @ r # post" "\<forall>r'\<in>set pre. \<not> root_ok r'"
        "root_ok r" "t = clip 0 1 (Re r)" by blast
      then have "r0 # rs = (r0 # pre) @ r # post \<and> (\<forall>r'\<in>set (r0 # pre). \<not> root_ok r') \<and> root_ok r \<and>
        t = clip 0 1 (Re r)" using False by simp
      then show "\<exists>pre r post. r0 # rs = pre @ r # post \<and> (\<forall>r'\<in>set pre. \<not> root_ok r') \<and> root_ok r \<and>
        t = clip 0 1 (Re r)" by blast
    qed
    then show ?thesis using False Cons by simp
  qed
qed

lemma first_root_None: "first_root rs = None \<longleftrightarrow> (\<forall>r\<in>set rs. \<not> root_ok r)"
  by (induction rs) auto

lemma first_root_range: "first_root rs = Some t \<Longrightarrow> 0 \<le> t \<and> t \<le> 1"
  by (induction rs) (auto simp: clip_def split: if_splits)

lemma QuadRegion_init_fields:
  assumes "QuadRegion_init nvo chans positions = Inr q"
  shows "length chans = 4" "length positions = 4" "length (nvo positions) = 4"
    "\<forall>i\<in>set (nvo positions). i < 4"
    "q_output_channels q = chans" "q_positions q = positions" "q_order q = nvo positions"
    "q_pan_x q =
       (cross (sub3 (positions ! (nvo positions ! 1)) (positions ! (nvo positions ! 0)))
              (sub3 (positions ! (nvo positions ! 2)) (positions ! (nvo positions ! 3))),
        add3 (cross (positions ! (nvo positions ! 0))
                    (sub3 (positions ! (nvo positions ! 2)) (positions ! (nvo positions ! 3))))
             (cross (sub3 (positions ! (nvo positions ! 1)) (positions ! (nvo positions ! 0)))
                    (positions ! (nvo positions ! 3))),
        cross (positions ! (nvo positions ! 0)) (positions ! (nvo positions ! 3)))"
    "q_pan_y q =
       (cross (sub3 (positions ! (nvo positions ! 2)) (positions ! (nvo positions ! 1)))
              (sub3 (positions ! (nvo positions ! 3)) (positions ! (nvo positions ! 0))),
        add3 (cross (positions ! (nvo positions ! 1))
                    (sub3 (positions ! (nvo positions ! 3)) (positions ! (nvo positions ! 0))))
             (cross (sub3 (positions ! (nvo positions ! 2)) (positions ! (nvo positions ! 1)))
                    (positions ! (nvo positions ! 0))),
        cross (positions ! (nvo positions ! 1)) (positions ! (nvo positions ! 0)))"
proof -
  from assms show l: "length chans = 4" "length positions = 4"
    by (auto simp: QuadRegion_init_def split: if_splits)
  from assms l obtain ordered where tr: "take_rows positions (nvo positions) = Inr ordered"
    by (auto simp: QuadRegion_init_def Let_def split: sum.splits)
  then have ord: "ordered = map (\<lambda>i. positions ! i) (nvo positions)"
    and rng: "\<forall>i\<in>set (nvo positions). i < length positions"
    by (auto simp: take_rows_def split: if_splits)
  from assms l tr obtain px where px: "pan_axis ordered = Inr px"
    by (auto simp: QuadRegion_init_def Let_def split: sum.splits)
  then obtain a b c d where abcd: "ordered = [a, b, c, d]"
    by (auto simp: pan_axis_def split: list.splits)
  with ord obtain o0 o1 o2 o3 where o: "nvo positions = [o0, o1, o2, o3]"
    by (auto simp: map_eq_Cons_conv)
  then show l4: "length (nvo positions) = 4" by simp
  from rng l show "\<forall>i\<in>set (nvo positions). i < 4" by simp
  show "q_output_channels q = chans" "q_positions q = positions" "q_order q = nvo positions"
    using assms l by (auto simp: QuadRegion_init_def Let_def split: sum.splits)
  have el: "a = positions ! (nvo positions ! 0)" "b = positions ! (nvo positions ! 1)"
    "c = positions ! (nvo positions ! 2)" "d = positions ! (nvo positions ! 3)"
    using ord abcd unfolding o by simp_all
  show "q_pan_x q =
       (cross (sub3 (positions ! (nvo positions ! 1)) (positions ! (nvo positions ! 0)))
              (sub3 (positions ! (nvo positions ! 2)) (positions ! (nvo positions ! 3))),
        add3 (cross (positions ! (nvo positions ! 0))
                    (sub3 (positions ! (nvo positions ! 2)) (positions ! (nvo positions ! 3))))
             (cross (sub3 (positions ! (nvo positions ! 1)) (positions ! (nvo positions ! 0)))
                    (positions ! (nvo positions ! 3))),
        cross (positions ! (nvo positions ! 0)) (positions ! (nvo positions ! 3)))"
    using assms l tr abcd unfolding el[symmetric]
    by (auto simp: QuadRegion_init_def Let_def pan_axis_def split: sum.splits)
  show "q_pan_y q =
       (cross (sub3 (positions ! (nvo positions ! 2)) (positions ! (nvo positions ! 1)))
              (sub3 (positions ! (nvo positions ! 3)) (positions ! (nvo positions ! 0))),
        add3 (cross (positions ! (nvo positions ! 1))
                    (sub3 (positions ! (nvo positions ! 3)) (positions ! (nvo positions ! 0))))
             (cross (sub3 (positions ! (nvo positions ! 2)) (positions ! (nvo positions ! 1)))
                    (positions ! (nvo positions ! 0))),
        cross (positions ! (nvo positions ! 1)) (positions ! (nvo positions ! 0)))"
    using assms l tr abcd unfolding el[symmetric]
    by (auto simp: QuadRegion_init_def Let_def pan_axis_def split: sum.splits)
qed

lemma gains_dot_zero: "\<forall>x\<in>set g. x = 0 \<Longrightarrow> gains_dot g ps = (0, 0, 0)"
proof (induction g ps rule: gains_dot.induct)
  case (1 g gs r rs)
  obtain x y z where r: "r = (x, y, z)" by (metis prod_cases3)
  from 1 show ?case by (simp add: r)
qed auto

text \<open>
  Claim C3. For a QuadRegion built by its constructor, with \<open>a, b, c, d\<close> the positions in
  vertex order: the pan parameter of the first axis comes from \<^verbatim>\<open>np.roots\<close> applied to
  the coefficients \<open>((b-a)\<times>(c-d))\<cdot>p\<close>, \<open>(a\<times>(c-d) + (b-a)\<times>d)\<cdot>p\<close>, \<open>(a\<times>d)\<cdot>p\<close>, that of the
  second axis from the same with \<open>b, c, d, a\<close>. It is the real part, clipped to \<open>[0, 1]\<close>,
  of the first root \<open>r\<close> in the returned order with \<open>|Im r| < 1e-10\<close> and
  \<open>-1e-10 < Re r < 1 + 1e-10\<close>. \<open>handle\<close> returns \<open>None\<close> when an axis has no such root or
  when \<open>pvs \<cdot> positions \<cdot> p \<le> 0\<close>, where \<open>pvs\<close> holds
  \<open>[(1-x)(1-y), x(1-y), xy, (1-x)y]\<close> at the indices of the vertex order; otherwise it
  returns \<open>pvs / \<parallel>pvs\<parallel>\<close>, of norm 1.
\<close>

theorem QuadRegion_handle_bilinear:
  assumes init: "QuadRegion_init nvo chans positions = Inr q"
  shows "let order = nvo positions;
             a = positions ! (order ! 0); b = positions ! (order ! 1);
             c = positions ! (order ! 2); d = positions ! (order ! 3);
             cx = [dot3 (cross (sub3 b a) (sub3 c d)) p,
                   dot3 (add3 (cross a (sub3 c d)) (cross (sub3 b a) d)) p,
                   dot3 (cross a d) p];
             cy = [dot3 (cross (sub3 c b) (sub3 d a)) p,
                   dot3 (add3 (cross b (sub3 d a)) (cross (sub3 c b) a)) p,
                   dot3 (cross b a) p];
             accept = (\<lambda>r. \<bar>Im r\<bar> < 1 / 10 ^ 10 \<and> - (1 / 10 ^ 10) < Re r \<and> Re r < 1 + 1 / 10 ^ 10);
             pan = (\<lambda>cs t. \<exists>pre r post. np_roots cs = pre @ r # post \<and>
                       (\<forall>r'\<in>set pre. \<not> accept r') \<and> accept r \<and> t = min 1 (max 0 (Re r)));
             nopan = (\<lambda>cs. \<forall>r\<in>set (np_roots cs). \<not> accept r)
         in
           q_order q = order \<and> length order = 4 \<and> (\<forall>i\<in>set order. i < 4) \<and>
           (pan_axis_handle np_roots (q_pan_x q) p = None \<longleftrightarrow> nopan cx) \<and>
           (pan_axis_handle np_roots (q_pan_y q) p = None \<longleftrightarrow> nopan cy) \<and>
           (\<forall>t. pan_axis_handle np_roots (q_pan_x q) p = Some t \<longleftrightarrow> pan cx t) \<and>
           (\<forall>t. pan_axis_handle np_roots (q_pan_y q) p = Some t \<longleftrightarrow> pan cy t) \<and>
           (nopan cx \<or> nopan cy \<longrightarrow> QuadRegion_handle np_roots q p = Inr None) \<and>
           (\<forall>x y. pan cx x \<and> pan cy y \<longrightarrow>
              (\<exists>pvs. length pvs = 4 \<and>
                 (\<forall>k<4. (\<forall>k'. k < k' \<and> k' < 4 \<longrightarrow> order ! k' \<noteq> order ! k) \<longrightarrow>
                    pvs ! (order ! k) = [(1 - x) * (1 - y), x * (1 - y), x * y, (1 - x) * y] ! k) \<and>
                 (\<forall>i<4. i \<notin> set order \<longrightarrow> pvs ! i = 0) \<and>
                 (dot3 (gains_dot pvs positions) p \<le> 0 \<longrightarrow>
                    QuadRegion_handle np_roots q p = Inr None) \<and>
                 (dot3 (gains_dot pvs positions) p > 0 \<longrightarrow>
                    QuadRegion_handle np_roots q p =
                      Inr (Some (Arr (map (\<lambda>v. v / norm_l2 pvs) pvs))) \<and>
                    norm_l2 (map (\<lambda>v. v / norm_l2 pvs) pvs) = 1)))"
proof -
  note f = QuadRegion_init_fields[OF init]
  let ?order = "nvo positions"
  let ?a = "positions ! (?order ! 0)"
  let ?b = "positions ! (?order ! 1)"
  let ?c = "positions ! (?order ! 2)"
  let ?d = "positions ! (?order ! 3)"
  let ?cx = "[dot3 (cross (sub3 ?b ?a) (sub3 ?c ?d)) p,
              dot3 (add3 (cross ?a (sub3 ?c ?d)) (cross (sub3 ?b ?a) ?d)) p,
              dot3 (cross ?a ?d) p]"
  let ?cy = "[dot3 (cross (sub3 ?c ?b) (sub3 ?d ?a)) p,
              dot3 (add3 (cross ?b (sub3 ?d ?a)) (cross (sub3 ?c ?b) ?a)) p,
              dot3 (cross ?b ?a) p]"
  let ?accept = "\<lambda>r. \<bar>Im r\<bar> < 1 / 10 ^ 10 \<and> - (1 / 10 ^ 10) < Re r \<and> Re r < 1 + 1 / 10 ^ 10"
  let ?pan = "\<lambda>cs t. \<exists>pre r post. np_roots cs = pre @ r # post \<and>
                       (\<forall>r'\<in>set pre. \<not> ?accept r') \<and> ?accept r \<and> t = min 1 (max 0 (Re r))"
  let ?nopan = "\<lambda>cs. \<forall>r\<in>set (np_roots cs). \<not> ?accept r"
  have acc: "root_ok = ?accept" by (auto simp: root_ok_def epsillon_def fun_eq_iff)
  have px: "poly_dot (q_pan_x q) p = ?cx" unfolding f(8) by simp
  have py: "poly_dot (q_pan_y q) p = ?cy" unfolding f(9) by simp
  have hx: "pan_axis_handle np_roots (q_pan_x q) p = first_root (np_roots ?cx)"
    by (simp add: pan_axis_handle_def px)
  have hy: "pan_axis_handle np_roots (q_pan_y q) p = first_root (np_roots ?cy)"
    by (simp add: pan_axis_handle_def py)
  have fr_none: "first_root (np_roots cs) = None \<longleftrightarrow> ?nopan cs" for cs
    unfolding first_root_None acc ..
  have fr_some: "first_root (np_roots cs) = Some t \<longleftrightarrow> ?pan cs t" for cs t
    unfolding first_root_Some acc clip_def ..
  have none: "QuadRegion_handle np_roots q p = Inr None" if "?nopan ?cx \<or> ?nopan ?cy"
  proof -
    from that have "first_root (np_roots ?cx) = None \<or> first_root (np_roots ?cy) = None"
      unfolding fr_none .
    then show ?thesis unfolding QuadRegion_handle_def hx hy
      by (auto split: option.splits)
  qed
  have some: "\<exists>pvs. length pvs = 4 \<and>
                 (\<forall>k<4. (\<forall>k'. k < k' \<and> k' < 4 \<longrightarrow> ?order ! k' \<noteq> ?order ! k) \<longrightarrow>
                    pvs ! (?order ! k) = [(1 - x) * (1 - y), x * (1 - y), x * y, (1 - x) * y] ! k) \<and>
                 (\<forall>i<4. i \<notin> set ?order \<longrightarrow> pvs ! i = 0) \<and>
                 (dot3 (gains_dot pvs positions) p \<le> 0 \<longrightarrow>
                    QuadRegion_handle np_roots q p = Inr None) \<and>
                 (dot3 (gains_dot pvs positions) p > 0 \<longrightarrow>
                    QuadRegion_handle np_roots q p =
                      Inr (Some (Arr (map (\<lambda>v. v / norm_l2 pvs) pvs))) \<and>
                    norm_l2 (map (\<lambda>v. v / norm_l2 pvs) pvs) = 1)"
    if xy: "?pan ?cx x" "?pan ?cy y" for x y
  proof -
    define w where "w = [(1 - x) * (1 - y), x * (1 - y), x * y, (1 - x) * y]"
    define pvs where "pvs = assign (replicate 4 0) ?order w"
    have lw: "length w = length ?order" using f(3) by (simp add: w_def)
    have rng: "\<forall>i\<in>set ?order. i < 4" using f(4) .
    have rm: "remap (q_order q) 4 (Arr w) = Inr (Arr pvs)"
      unfolding f(7) pvs_def using remap_Arr[OF rng lw] .
    have l: "length pvs = 4" by (simp add: pvs_def length_assign)
    have pl: "pvs ! (?order ! k) = w ! k"
      if "k < 4" "\<forall>k'. k < k' \<and> k' < 4 \<longrightarrow> ?order ! k' \<noteq> ?order ! k" for k
      unfolding pvs_def using that lw rng f(3) by (intro assign_last) auto
    have z: "pvs ! i = 0" if "i < 4" "i \<notin> set ?order" for i
      unfolding pvs_def using that by (simp add: assign_other)
    have fx: "first_root (np_roots ?cx) = Some x" and fy: "first_root (np_roots ?cy) = Some y"
      using xy unfolding fr_some by blast+
    have h: "QuadRegion_handle np_roots q p =
        (if dot3 (gains_dot pvs positions) p \<le> 0 then Inr None else Inr (Some (normalise pvs)))"
      unfolding QuadRegion_handle_def hx hy fx fy using rm
      by (simp add: w_def f(6))
    have n: "normalise pvs = Arr (map (\<lambda>v. v / norm_l2 pvs) pvs) \<and>
             norm_l2 (map (\<lambda>v. v / norm_l2 pvs) pvs) = 1"
      if "dot3 (gains_dot pvs positions) p > 0"
    proof -
      have "norm_l2 pvs \<noteq> 0"
      proof
        assume "norm_l2 pvs = 0"
        then have "gains_dot pvs positions = (0, 0, 0)"
          by (intro gains_dot_zero) (simp add: norm_l2_zero_iff)
        with that show False by (cases p) simp
      qed
      moreover have "pvs \<noteq> []" using l by auto
      ultimately show ?thesis by (simp add: normalise_def norm_l2_normalised)
    qed
    have "length pvs = 4 \<and>
                 (\<forall>k<4. (\<forall>k'. k < k' \<and> k' < 4 \<longrightarrow> ?order ! k' \<noteq> ?order ! k) \<longrightarrow>
                    pvs ! (?order ! k) = [(1 - x) * (1 - y), x * (1 - y), x * y, (1 - x) * y] ! k) \<and>
                 (\<forall>i<4. i \<notin> set ?order \<longrightarrow> pvs ! i = 0) \<and>
                 (dot3 (gains_dot pvs positions) p \<le> 0 \<longrightarrow>
                    QuadRegion_handle np_roots q p = Inr None) \<and>
                 (dot3 (gains_dot pvs positions) p > 0 \<longrightarrow>
                    QuadRegion_handle np_roots q p =
                      Inr (Some (Arr (map (\<lambda>v. v / norm_l2 pvs) pvs))) \<and>
                    norm_l2 (map (\<lambda>v. v / norm_l2 pvs) pvs) = 1)"
      using l pl z h n unfolding w_def by auto
    then show ?thesis by (rule exI)
  qed
  show ?thesis unfolding Let_def
  proof (intro conjI allI impI)
    show "q_order q = ?order" by (rule f(7))
    show "length ?order = 4" by (rule f(3))
    show "\<forall>i\<in>set ?order. i < 4" by (rule f(4))
    show "pan_axis_handle np_roots (q_pan_x q) p = None \<longleftrightarrow> ?nopan ?cx"
      unfolding hx by (rule fr_none)
    show "pan_axis_handle np_roots (q_pan_y q) p = None \<longleftrightarrow> ?nopan ?cy"
      unfolding hy by (rule fr_none)
    show "pan_axis_handle np_roots (q_pan_x q) p = Some t \<longleftrightarrow> ?pan ?cx t" for t
      unfolding hx by (rule fr_some)
    show "pan_axis_handle np_roots (q_pan_y q) p = Some t \<longleftrightarrow> ?pan ?cy t" for t
      unfolding hy by (rule fr_some)
    show "QuadRegion_handle np_roots q p = Inr None" if "?nopan ?cx \<or> ?nopan ?cy"
      using that by (rule none)
    show "\<exists>pvs. length pvs = 4 \<and>
                 (\<forall>k<4. (\<forall>k'. k < k' \<and> k' < 4 \<longrightarrow> ?order ! k' \<noteq> ?order ! k) \<longrightarrow>
                    pvs ! (?order ! k) = [(1 - x) * (1 - y), x * (1 - y), x * y, (1 - x) * y] ! k) \<and>
                 (\<forall>i<4. i \<notin> set ?order \<longrightarrow> pvs ! i = 0) \<and>
                 (dot3 (gains_dot pvs positions) p \<le> 0 \<longrightarrow>
                    QuadRegion_handle np_roots q p = Inr None) \<and>
                 (dot3 (gains_dot pvs positions) p > 0 \<longrightarrow>
                    QuadRegion_handle np_roots q p =
                      Inr (Some (Arr (map (\<lambda>v. v / norm_l2 pvs) pvs))) \<and>
                    norm_l2 (map (\<lambda>v. v / norm_l2 pvs) pvs) = 1)"
      if "?pan ?cx x \<and> ?pan ?cy y" for x y
      using that some by blast
  qed
qed

lemma list4: "length xs = 4 \<Longrightarrow> xs = [xs ! 0, xs ! 1, xs ! 2, xs ! 3]"
  by (rule nth_equalityI) (auto simp: nth_Cons' numeral_eq_Suc less_Suc_eq)

lemma Q_square_init: "QuadRegion_init order_id4 [0, 1, 2, 3] square4 = Inr Q_square"
  by (simp add: QuadRegion_init_def order_id4_def square4_def Q_square_def take_rows_def
      pan_axis_def Let_def)

lemma norm_l2_quarter: "norm_l2 [1 / 4, 1 / 4, 1 / 4, 1 / 4] = 1 / 2"
proof -
  have "sqrt (1 / 4) = 1 / 2" by (rule real_sqrt_unique) (simp_all add: power2_eq_square)
  then show ?thesis by (simp add: norm_l2_def)
qed

text \<open>The theorem at the square, with the source above its centre.\<close>

theorem QuadRegion_handle_bilinear_witness:
  "QuadRegion_init order_id4 [0, 1, 2, 3] square4 = Inr Q_square \<and>
   QuadRegion_handle np_roots_linear Q_square (0, 0, 1) =
     Inr (Some (Arr [1 / 2, 1 / 2, 1 / 2, 1 / 2]))"
proof -
  let ?accept = "\<lambda>r. \<bar>Im r\<bar> < 1 / 10 ^ 10 \<and> - (1 / 10 ^ 10) < Re r \<and> Re r < 1 + 1 / 10 ^ 10"
  let ?pan = "\<lambda>cs t. \<exists>pre r post. np_roots_linear cs = pre @ r # post \<and>
                       (\<forall>r'\<in>set pre. \<not> ?accept r') \<and> ?accept r \<and> t = min 1 (max 0 (Re r))"
  have r: "np_roots_linear [0, 4, -2] = [] @ Complex (1 / 2) 0 # []"
    by (simp add: np_roots_linear_def)
  have pan: "?pan [0, 4, -2] (1 / 2)"
    by (rule exI[of _ "[]"], rule exI[of _ "Complex (1 / 2) 0"], rule exI[of _ "[]"])
       (simp add: r)
  have ord: "order_id4 square4 = [0, 1, 2, 3]" by (simp add: order_id4_def)
  have v: "square4 ! ([0, 1, 2, 3] ! 0) = (1, 1, 1)" "square4 ! ([0, 1, 2, 3] ! 1) = (-1, 1, 1)"
    "square4 ! ([0, 1, 2, 3] ! 2) = (-1, -1, 1)" "square4 ! ([0, 1, 2, 3] ! 3) = (1, -1, 1)"
    by (simp_all add: square4_def)
  have cx: "[dot3 (cross (sub3 (-1, 1, 1) (1, 1, 1)) (sub3 (-1, -1, 1) (1, -1, 1))) (0, 0, 1),
             dot3 (add3 (cross (1, 1, 1) (sub3 (-1, -1, 1) (1, -1, 1)))
                        (cross (sub3 (-1, 1, 1) (1, 1, 1)) (1, -1, 1))) (0, 0, 1),
             dot3 (cross (1, 1, 1) (1, -1, 1)) (0, 0, 1)] = [0, 4, -2::real]"
    by simp
  have cy: "[dot3 (cross (sub3 (-1, -1, 1) (-1, 1, 1)) (sub3 (1, -1, 1) (1, 1, 1))) (0, 0, 1),
             dot3 (add3 (cross (-1, 1, 1) (sub3 (1, -1, 1) (1, 1, 1)))
                        (cross (sub3 (-1, -1, 1) (-1, 1, 1)) (1, 1, 1))) (0, 0, 1),
             dot3 (cross (-1, 1, 1) (1, 1, 1)) (0, 0, 1)] = [0, 4, -2::real]"
    by simp
  note T = QuadRegion_handle_bilinear[OF Q_square_init, where np_roots = np_roots_linear
      and p = "(0, 0, 1)", unfolded Let_def ord v cx cy]
  note T9 = T[THEN conjunct2, THEN conjunct2, THEN conjunct2, THEN conjunct2,
      THEN conjunct2, THEN conjunct2, THEN conjunct2, THEN conjunct2]
  from T9[rule_format, of "1 / 2" "1 / 2", OF conjI[OF pan pan]]
  obtain pvs where l: "length pvs = 4"
    and pl: "\<forall>k<4. (\<forall>k'. k < k' \<and> k' < 4 \<longrightarrow> [0, 1, 2, 3::nat] ! k' \<noteq> [0, 1, 2, 3] ! k) \<longrightarrow>
                    pvs ! ([0, 1, 2, 3] ! k) =
                      [(1 - 1 / 2) * (1 - 1 / 2), 1 / 2 * (1 - 1 / 2), 1 / 2 * (1 / 2), (1 - 1 / 2) * (1 / 2)] ! k"
    and h: "dot3 (gains_dot pvs square4) (0, 0, 1) > 0 \<longrightarrow>
                    QuadRegion_handle np_roots_linear Q_square (0, 0, 1) =
                      Inr (Some (Arr (map (\<lambda>v. v / norm_l2 pvs) pvs))) \<and>
                    norm_l2 (map (\<lambda>v. v / norm_l2 pvs) pvs) = 1"
    by (elim exE conjE) 
  have e: "pvs ! 0 = 1 / 4" "pvs ! 1 = 1 / 4" "pvs ! 2 = 1 / 4" "pvs ! 3 = 1 / 4"
    using pl[rule_format, of 0] pl[rule_format, of 1] pl[rule_format, of 2] pl[rule_format, of 3]
    by (auto simp: nth_Cons')
  have pvs: "pvs = [1 / 4, 1 / 4, 1 / 4, 1 / 4]"
    by (subst list4[OF l]) (simp only: e)
  have "dot3 (gains_dot pvs square4) (0, 0, 1) > 0" unfolding pvs by (simp add: square4_def)
  with h have "QuadRegion_handle np_roots_linear Q_square (0, 0, 1) =
                      Inr (Some (Arr (map (\<lambda>v. v / norm_l2 pvs) pvs)))" by simp
  then have "QuadRegion_handle np_roots_linear Q_square (0, 0, 1) =
     Inr (Some (Arr [1 / 2, 1 / 2, 1 / 2, 1 / 2]))"
    unfolding pvs norm_l2_quarter by simp
  with Q_square_init show ?thesis by blast
qed

subsection \<open>extra\_pos\_vertical\_nominal\<close>

lemma mid_loop_eq:
  "mid_loop azl el tgt n items (ex, dm) =
     (ex @ map (\<lambda>(i, c). extra_channel c el tgt)
             (filter (\<lambda>(i, c). \<bar>nominal_az c\<bar> \<ge> azl - 1 / 10 ^ 5) items),
      dm @ map (\<lambda>(i, c). unit_row n i)
             (filter (\<lambda>(i, c). \<bar>nominal_az c\<bar> \<ge> azl - 1 / 10 ^ 5) items))"
  by (induction items arbitrary: ex dm) auto

lemma zip_upt_map: "zip [0..<length xs] xs = map (\<lambda>i. (i, xs ! i)) [0..<length xs]"
  by (rule nth_equalityI) auto

lemma unit_row_nth: "i < n \<Longrightarrow> unit_row n s ! i = (if i = s then 1 else 0)"
  by (auto simp: unit_row_def nth_list_update)

lemma length_unit_row: "length (unit_row n s) = n"
  by (simp add: unit_row_def)

lemma layer_step_eq:
  "layer_step chs (tgt, lb, ub) (ex, dm) =
     (let layer = filter (\<lambda>c. lb \<le> nominal_el c \<and> nominal_el c \<le> ub) chs;
          azl = (if layer \<noteq> [] then Max (set (map (\<lambda>c. \<bar>nominal_az c\<bar>) layer)) + 40 else 0);
          el = (if layer \<noteq> [] then sum_list (map real_el layer) / real (length layer) else tgt)
      in (ex @ map (\<lambda>i. extra_channel (chs ! i) el tgt) (picked chs azl),
          dm @ map (unit_row (length chs)) (picked chs azl)))"
proof -
  have f: "filter (\<lambda>(i, c). \<bar>nominal_az c\<bar> \<ge> azl - 1 / 10 ^ 5)
             (filter (\<lambda>(i, c). mid c) (zip [0..<length chs] chs))
           = map (\<lambda>i. (i, chs ! i)) (picked chs azl)" for azl
    unfolding zip_upt_map picked_def by (simp add: filter_map comp_def conj_commute)
  show ?thesis
    unfolding layer_step_def Let_def prod.case mid_loop_eq f
    by (simp add: comp_def)
qed

lemma extra_pos_eq:
  "extra_pos_vertical_nominal layout =
     (let chs = channels layout;
          lay = (\<lambda>lb ub. filter (\<lambda>c. lb \<le> nominal_el c \<and> nominal_el c \<le> ub) chs);
          azl = (\<lambda>lb ub. if lay lb ub \<noteq> []
                          then Max (set (map (\<lambda>c. \<bar>nominal_az c\<bar>) (lay lb ub))) + 40 else 0);
          el = (\<lambda>tgt lb ub. if lay lb ub \<noteq> []
                          then sum_list (map real_el (lay lb ub)) / real (length (lay lb ub))
                          else tgt);
          lo = picked chs (azl (-70) (-10)); up = picked chs (azl 10 70)
      in (map (\<lambda>i. extra_channel (chs ! i) (el (-30) (-70) (-10)) (-30)) lo @
          map (\<lambda>i. extra_channel (chs ! i) (el 30 10 70) 30) up,
          mat_T (length chs) (identity (length chs) @ map (unit_row (length chs)) (lo @ up))))"
  unfolding extra_pos_vertical_nominal_def layers_def Let_def
  by (simp add: layer_step_eq Let_def)

lemma mat_T_props:
  assumes "rows = identity n @ map (unit_row n) src"
  shows "length (mat_T n rows) = n"
    and "\<forall>row\<in>set (mat_T n rows). length row = n + length src"
    and "\<forall>i<n. \<forall>j<n. mat_T n rows ! i ! j = (if i = j then 1 else 0)"
    and "\<forall>i<n. \<forall>k<length src. mat_T n rows ! i ! (n + k) = (if i = src ! k then 1 else 0)"
proof -
  have lr: "length rows = n + length src" by (simp add: assms identity_def)
  show "length (mat_T n rows) = n" by (simp add: mat_T_def)
  show "\<forall>row\<in>set (mat_T n rows). length row = n + length src"
    by (auto simp: mat_T_def lr)
  have e: "mat_T n rows ! i ! j = rows ! j ! i" if "i < n" "j < length rows" for i j
    using that by (simp add: mat_T_def)
  show "\<forall>i<n. \<forall>j<n. mat_T n rows ! i ! j = (if i = j then 1 else 0)"
  proof (intro allI impI)
    fix i j assume ij: "i < n" "j < n"
    have "rows ! j = unit_row n j" using ij by (simp add: assms identity_def nth_append)
    then show "mat_T n rows ! i ! j = (if i = j then 1 else 0)"
      using e[of i j] ij lr by (simp add: unit_row_nth)
  qed
  show "\<forall>i<n. \<forall>k<length src. mat_T n rows ! i ! (n + k) = (if i = src ! k then 1 else 0)"
  proof (intro allI impI)
    fix i k assume ik: "i < n" "k < length src"
    have "rows ! (n + k) = unit_row n (src ! k)"
      using ik by (simp add: assms identity_def nth_append)
    then show "mat_T n rows ! i ! (n + k) = (if i = src ! k then 1 else 0)"
      using e[of i "n + k"] ik lr by (simp add: unit_row_nth)
  qed
qed

text \<open>
  Claim C7. For the lower layer (nominal elevation in \<open>[-70, -10]\<close>, target \<open>-30\<close>) and the
  upper layer (\<open>[10, 70]\<close>, target 30): \<open>az_limit\<close> is the largest absolute nominal azimuth
  on the layer plus 40 and the elevation of the extras is the mean real elevation of the
  layer, or 0 and the target when the layer is empty. The extra channels are, first for
  the lower and then for the upper layer, one for each mid-layer channel (nominal elevation
  in \<open>[-10, 10]\<close>) with \<open>|nominal az| \<ge> az_limit - 1e-5\<close>, in channel order. The downmix
  matrix has \<open>n\<close> rows of length \<open>n\<close> plus the number of extras, is the identity on the
  first \<open>n\<close> columns, and the column of each extra has a 1 in the row of its mid-layer
  channel and 0 elsewhere.
\<close>

theorem extra_pos_vertical_nominal_layers:
  "let chs = channels layout; n = length chs;
       layer = (\<lambda>lb ub. filter (\<lambda>c. lb \<le> nominal_el c \<and> nominal_el c \<le> ub) chs);
       az_limit = (\<lambda>lb ub. if layer lb ub \<noteq> []
                      then Max (set (map (\<lambda>c. \<bar>nominal_az c\<bar>) (layer lb ub))) + 40 else 0);
       layer_el = (\<lambda>tgt lb ub. if layer lb ub \<noteq> []
                      then sum_list (map real_el (layer lb ub)) / real (length (layer lb ub))
                      else tgt);
       chosen = (\<lambda>lb ub. filter (\<lambda>i. -10 \<le> nominal_el (chs ! i) \<and> nominal_el (chs ! i) \<le> 10 \<and>
                      \<bar>nominal_az (chs ! i)\<bar> \<ge> az_limit lb ub - 1 / 10 ^ 5) [0..<n]);
       extra = (\<lambda>tgt lb ub i.
                  \<lparr>name = ''extra'',
                   polar_position = \<lparr>azimuth = real_az (chs ! i),
                                     elevation = layer_el tgt lb ub, distance = 1\<rparr>,
                   polar_nominal_position = \<lparr>azimuth = nominal_az (chs ! i),
                                             elevation = tgt, distance = 1\<rparr>,
                   is_lfe = False\<rparr>);
       src = chosen (-70) (-10) @ chosen 10 70;
       extra_channels = fst (extra_pos_vertical_nominal layout);
       downmix = snd (extra_pos_vertical_nominal layout)
   in extra_channels = map (extra (-30) (-70) (-10)) (chosen (-70) (-10)) @
                       map (extra 30 10 70) (chosen 10 70) \<and>
      length downmix = n \<and>
      (\<forall>row\<in>set downmix. length row = n + length extra_channels) \<and>
      (\<forall>i<n. \<forall>j<n. downmix ! i ! j = (if i = j then 1 else 0)) \<and>
      (\<forall>i<n. \<forall>k<length src. downmix ! i ! (n + k) = (if i = src ! k then 1 else 0))"
proof -
  let ?chs = "channels layout"
  let ?n = "length ?chs"
  let ?layer = "\<lambda>lb ub. filter (\<lambda>c. lb \<le> nominal_el c \<and> nominal_el c \<le> ub) ?chs"
  let ?azl = "\<lambda>lb ub. if ?layer lb ub \<noteq> []
                      then Max (set (map (\<lambda>c. \<bar>nominal_az c\<bar>) (?layer lb ub))) + 40 else 0"
  let ?el = "\<lambda>tgt lb ub. if ?layer lb ub \<noteq> []
                      then sum_list (map real_el (?layer lb ub)) / real (length (?layer lb ub))
                      else tgt"
  let ?chosen = "\<lambda>lb ub. filter (\<lambda>i. -10 \<le> nominal_el (?chs ! i) \<and> nominal_el (?chs ! i) \<le> 10 \<and>
                      \<bar>nominal_az (?chs ! i)\<bar> \<ge> ?azl lb ub - 1 / 10 ^ 5) [0..<?n]"
  let ?src = "?chosen (-70) (-10) @ ?chosen 10 70"
  let ?rows = "identity ?n @ map (unit_row ?n) ?src"
  have pk: "picked ?chs l = filter (\<lambda>i. -10 \<le> nominal_el (?chs ! i) \<and> nominal_el (?chs ! i) \<le> 10 \<and>
                      \<bar>nominal_az (?chs ! i)\<bar> \<ge> l - 1 / 10 ^ 5) [0..<?n]" for l
    by (simp add: picked_def mid_def conj_assoc)
  have E: "extra_pos_vertical_nominal layout =
      (map (\<lambda>i. extra_channel (?chs ! i) (?el (-30) (-70) (-10)) (-30)) (?chosen (-70) (-10)) @
       map (\<lambda>i. extra_channel (?chs ! i) (?el 30 10 70) 30) (?chosen 10 70),
       mat_T ?n ?rows)"
    unfolding extra_pos_eq Let_def pk by simp
  note M = mat_T_props[OF refl, of ?n ?src]
  have len: "length (fst (extra_pos_vertical_nominal layout)) = length ?src"
    unfolding E by simp
  show ?thesis unfolding Let_def
  proof (intro conjI)
    show "fst (extra_pos_vertical_nominal layout) =
        map (\<lambda>i. \<lparr>name = ''extra'',
                   polar_position = \<lparr>azimuth = real_az (?chs ! i),
                                     elevation = ?el (-30) (-70) (-10), distance = 1\<rparr>,
                   polar_nominal_position = \<lparr>azimuth = nominal_az (?chs ! i),
                                             elevation = -30, distance = 1\<rparr>,
                   is_lfe = False\<rparr>) (?chosen (-70) (-10)) @
        map (\<lambda>i. \<lparr>name = ''extra'',
                   polar_position = \<lparr>azimuth = real_az (?chs ! i),
                                     elevation = ?el 30 10 70, distance = 1\<rparr>,
                   polar_nominal_position = \<lparr>azimuth = nominal_az (?chs ! i),
                                             elevation = 30, distance = 1\<rparr>,
                   is_lfe = False\<rparr>) (?chosen 10 70)"
      unfolding E fst_conv extra_channel_def ..
    show "length (snd (extra_pos_vertical_nominal layout)) = ?n"
      unfolding E snd_conv by (rule M(1))
    show "\<forall>row\<in>set (snd (extra_pos_vertical_nominal layout)).
            length row = ?n + length (fst (extra_pos_vertical_nominal layout))"
      unfolding len unfolding E snd_conv by (rule M(2))
    show "\<forall>i<?n. \<forall>j<?n. snd (extra_pos_vertical_nominal layout) ! i ! j = (if i = j then 1 else 0)"
      unfolding E snd_conv by (rule M(3))
    show "\<forall>i<?n. \<forall>k<length ?src.
            snd (extra_pos_vertical_nominal layout) ! i ! (?n + k) = (if i = ?src ! k then 1 else 0)"
      unfolding E snd_conv by (rule M(4))
  qed
qed

text \<open>
  The theorem at a layout of three channels: both mid-layer channels get an extra below,
  and the one at 110 degrees (beyond 45 + 40) gets one above.
\<close>

theorem extra_pos_vertical_nominal_layers_witness:
  "fst (extra_pos_vertical_nominal L3) =
     [\<lparr>name = ''extra'',
       polar_position = \<lparr>azimuth = 30, elevation = -30, distance = 1\<rparr>,
       polar_nominal_position = \<lparr>azimuth = 30, elevation = -30, distance = 1\<rparr>,
       is_lfe = False\<rparr>,
      \<lparr>name = ''extra'',
       polar_position = \<lparr>azimuth = 110, elevation = -30, distance = 1\<rparr>,
       polar_nominal_position = \<lparr>azimuth = 110, elevation = -30, distance = 1\<rparr>,
       is_lfe = False\<rparr>,
      \<lparr>name = ''extra'',
       polar_position = \<lparr>azimuth = 110, elevation = 30, distance = 1\<rparr>,
       polar_nominal_position = \<lparr>azimuth = 110, elevation = 30, distance = 1\<rparr>,
       is_lfe = False\<rparr>] \<and>
   length (snd (extra_pos_vertical_nominal L3)) = 3 \<and>
   snd (extra_pos_vertical_nominal L3) ! 2 ! 2 = 1 \<and>
   snd (extra_pos_vertical_nominal L3) ! 0 ! 1 = 0 \<and>
   snd (extra_pos_vertical_nominal L3) ! 1 ! (3 + 2) = 1 \<and>
   snd (extra_pos_vertical_nominal L3) ! 0 ! (3 + 2) = 0"
proof -
  let ?E = "extra_pos_vertical_nominal L3"
  have chs: "channels L3 =
           [\<lparr>name = ''M+030'',
             polar_position = \<lparr>azimuth = 30, elevation = 0, distance = 1\<rparr>,
             polar_nominal_position = \<lparr>azimuth = 30, elevation = 0, distance = 1\<rparr>,
             is_lfe = False\<rparr>,
            \<lparr>name = ''M+110'',
             polar_position = \<lparr>azimuth = 110, elevation = 0, distance = 1\<rparr>,
             polar_nominal_position = \<lparr>azimuth = 110, elevation = 0, distance = 1\<rparr>,
             is_lfe = False\<rparr>,
            \<lparr>name = ''U+045'',
             polar_position = \<lparr>azimuth = 45, elevation = 30, distance = 1\<rparr>,
             polar_nominal_position = \<lparr>azimuth = 45, elevation = 30, distance = 1\<rparr>,
             is_lfe = False\<rparr>]"
    by (simp add: L3_def)
  note T = extra_pos_vertical_nominal_layers[of L3, unfolded Let_def]
  note ev = chs upt3 nominal_el_def nominal_az_def real_el_def real_az_def
  have 1: "fst ?E =
     [\<lparr>name = ''extra'',
       polar_position = \<lparr>azimuth = 30, elevation = -30, distance = 1\<rparr>,
       polar_nominal_position = \<lparr>azimuth = 30, elevation = -30, distance = 1\<rparr>,
       is_lfe = False\<rparr>,
      \<lparr>name = ''extra'',
       polar_position = \<lparr>azimuth = 110, elevation = -30, distance = 1\<rparr>,
       polar_nominal_position = \<lparr>azimuth = 110, elevation = -30, distance = 1\<rparr>,
       is_lfe = False\<rparr>,
      \<lparr>name = ''extra'',
       polar_position = \<lparr>azimuth = 110, elevation = 30, distance = 1\<rparr>,
       polar_nominal_position = \<lparr>azimuth = 110, elevation = 30, distance = 1\<rparr>,
       is_lfe = False\<rparr>]"
    using T[THEN conjunct1] by (simp add: ev)
  have 2: "length (snd ?E) = 3"
    using T[THEN conjunct2, THEN conjunct1] by (simp add: ev)
  note A = T[THEN conjunct2, THEN conjunct2, THEN conjunct2, THEN conjunct1, rule_format]
  note B = T[THEN conjunct2, THEN conjunct2, THEN conjunct2, THEN conjunct2, rule_format]
  have 3: "snd ?E ! 2 ! 2 = 1" using A[of 2 2] by (simp add: ev)
  have 4: "snd ?E ! 0 ! 1 = 0" using A[of 0 1] by (simp add: ev)
  have 5: "snd ?E ! 1 ! (3 + 2) = 1" using B[of 1 2] by (simp add: ev eval_nat_numeral)
  have 6: "snd ?E ! 0 ! (3 + 2) = 0" using B[of 0 2] by (simp add: ev eval_nat_numeral)
  from 1 2 3 4 5 6 show ?thesis by blast
qed

end
